theory Spec2Isabelle
  imports Main "HOL-Library.Word" "HOL-Library.Sublist" "HOL-Library.Monad_Syntax"
    "HOL-Library.Code_Target_Numeral"
begin

section \<open>Data model of btree.c\<close>

text \<open>
  Bytes are 8-bit words; sizes, indices and page numbers are natural numbers, with the
  wrap-around of the C type written out where the code can reach it.  A function returns
  \<open>None\<close> when the C execution has no defined result: it reads or writes outside the
  object it was given, or it does not return.  Allocation (\<open>malloc\<close>, \<open>calloc\<close>) is
  taken to succeed.
\<close>

type_synonym byte = "8 word"

definition PAGESIZE :: nat where "PAGESIZE = 4096"
definition BT_MINKEYS :: nat where "BT_MINKEYS = 4"
definition MAXKEYSIZE :: nat where "MAXKEYSIZE = 255"
definition P_INVALID :: nat where "P_INVALID = 4294967295"

text \<open>\<open>size_t\<close> subtraction (64 bit) and the 32- and 64-bit counters.\<close>

definition size_sub :: "nat \<Rightarrow> nat \<Rightarrow> nat" where
  "size_sub a b = (if b \<le> a then a - b else a + 2 ^ 64 - b)"

definition u32_inc :: "nat \<Rightarrow> nat" where "u32_inc n = (n + 1) mod 2 ^ 32"
definition u32_dec :: "nat \<Rightarrow> nat" where "u32_dec n = (n + 2 ^ 32 - 1) mod 2 ^ 32"
definition u64_inc :: "nat \<Rightarrow> nat" where "u64_inc n = (n + 1) mod 2 ^ 64"
definition u64_dec :: "nat \<Rightarrow> nat" where "u64_dec n = (n + 2 ^ 64 - 1) mod 2 ^ 64"

text \<open>Flag words are kept as sets of the flag bits that are set.\<close>

datatype pflag = P_BRANCH | P_LEAF | P_OVERFLOW | P_META | P_HEAD
datatype nflag = F_BIGDATA
datatype mflag = BT_TOMBSTONE
datatype tflag = BT_TXN_RDONLY | BT_TXN_ERROR
datatype bflag = BT_FIXPADDING | BT_NOSYNC | BT_RDONLY

datatype rc = BT_SUCCESS | BT_FAIL
datatype errno = ENONE | ENOENT | EINVAL | EPERM | EBUSY | EIO | ESTALE

text \<open>\<open>struct btval\<close>: \<open>bv_data\<close> is the memory \<open>data\<close> points to.\<close>

record btval =
  bv_data :: "byte list"
  bv_size :: nat

text \<open>
  \<open>struct node\<close>.  \<open>n_p\<close> is the union of \<open>n_pgno\<close> (branch) and \<open>n_dsize\<close> (leaf);
  \<open>n_key\<close> holds the \<open>ksize\<close> key bytes; the payload after the key is either the inline
  data or, under \<open>F_BIGDATA\<close>, the page number of the first overflow page.
\<close>

datatype payload = Inline "byte list" | OvRef nat

record node =
  n_p :: nat
  n_flags :: "nflag set"
  n_key :: "byte list"
  n_payload :: payload

definition ksize :: "node \<Rightarrow> nat" where "ksize nd = length (n_key nd)"

text \<open>
  \<open>struct bt_meta\<close>.  \<open>SHA256\<close> is a function of the OpenSSL library; it is modelled
  as the list of the hashed fields themselves, a digest without collisions.
\<close>

record bt_meta =
  m_flags :: "mflag set"
  m_root :: nat
  m_prev_meta :: nat
  m_created_at :: nat
  m_branch_pages :: nat
  m_leaf_pages :: nat
  m_overflow_pages :: nat
  m_revisions :: nat
  m_depth :: nat
  m_entries :: nat
  m_hash :: "nat list"

definition SHA256 :: "bt_meta \<Rightarrow> nat list" where
  "SHA256 m = [if BT_TOMBSTONE \<in> m_flags m then 1 else 0, m_root m, m_prev_meta m,
     m_created_at m, m_branch_pages m, m_leaf_pages m, m_overflow_pages m, m_revisions m,
     m_depth m, m_entries m]"

record bt_head =
  h_magic :: nat
  h_version :: nat
  h_flags :: nat
  h_psize :: nat

text \<open>
  \<open>struct page\<close>.  \<open>pg_nodes\<close> are the node records in slot order (\<open>ptrs[i]\<close> and the
  node it points to); \<open>pg_lower\<close> and \<open>pg_upper\<close> are kept as the code keeps them.
  \<open>pg_next\<close> and \<open>pg_odata\<close> are the link and the payload of an overflow page,
  \<open>pg_meta\<close> the body of a meta page.
\<close>

record page =
  pg_pgno :: nat
  pg_flags :: "pflag set"
  pg_lower :: nat
  pg_upper :: nat
  pg_nodes :: "node list"
  pg_next :: nat
  pg_odata :: "byte list"
  pg_meta :: bt_meta

definition PAGEHDRSZ :: nat where "PAGEHDRSZ = 12"
definition NODESIZE :: nat where "NODESIZE = 7"

definition NUMKEYSP :: "page \<Rightarrow> nat" where
  "NUMKEYSP p = (pg_lower p - PAGEHDRSZ) div 2"

text \<open>\<open>NODEPTRP\<close>: a slot beyond the node records holds no node.\<close>

definition NODEPTRP :: "page \<Rightarrow> nat \<Rightarrow> node option" where
  "NODEPTRP p i = (if i < length (pg_nodes p) then Some (pg_nodes p ! i) else None)"

definition NODEKEY :: "node \<Rightarrow> btval" where
  "NODEKEY nd = \<lparr>bv_data = n_key nd, bv_size = ksize nd\<rparr>"

subsection \<open>Comparison\<close>

text \<open>
  \<open>memcmp\<close> of the C library compares the first \<open>n\<close> bytes of two objects: it is
  undefined (\<open>None\<close>) when either object holds fewer than \<open>n\<close> bytes, also when the two
  differ before the end of the shorter one.  Otherwise its result has the sign of the
  first differing byte, read as unsigned char.  A byte list is the whole object: what
  lies behind a key in its buffer or page is not part of it.
\<close>

fun memcmp_loop :: "byte list \<Rightarrow> byte list \<Rightarrow> int" where
  "memcmp_loop (x # xs) (y # ys) = (if x = y then memcmp_loop xs ys else if x < y then - 1 else 1)"
| "memcmp_loop _ _ = 0"

definition memcmp :: "byte list \<Rightarrow> byte list \<Rightarrow> nat \<Rightarrow> int option" where
  "memcmp s1 s2 n =
     (if n \<le> length s1 \<and> n \<le> length s2 then Some (memcmp_loop (take n s1) (take n s2))
      else None)"

definition memncmp :: "byte list \<Rightarrow> nat \<Rightarrow> byte list \<Rightarrow> nat \<Rightarrow> int option" where
  "memncmp s1 n1 s2 n2 =
     (if n1 < n2 then
        (case memcmp s1 s2 n1 of None \<Rightarrow> None
         | Some r \<Rightarrow> if r = 0 then Some (- 1) else memcmp s1 s2 n1)
      else if n1 > n2 then
        (case memcmp s1 s2 n2 of None \<Rightarrow> None
         | Some r \<Rightarrow> if r = 0 then Some 1 else memcmp s1 s2 n1)
      else memcmp s1 s2 n1)"

definition btree_cmp :: "btval \<Rightarrow> btval \<Rightarrow> int option" where
  "btree_cmp a b = memncmp (bv_data a) (bv_size a) (bv_data b) (bv_size b)"

text \<open>A byte string as the \<open>btval\<close> that describes exactly its bytes.\<close>

definition val :: "byte list \<Rightarrow> btval" where
  "val s = \<lparr>bv_data = s, bv_size = length s\<rparr>"

definition bt_cmp :: "btval \<Rightarrow> btval \<Rightarrow> byte list \<Rightarrow> int option" where
  "bt_cmp key1 key2 pfx =
     memncmp (drop (length pfx) (bv_data key1)) (size_sub (bv_size key1) (length pfx))
       (bv_data key2) (bv_size key2)"

subsection \<open>Prefixes\<close>

fun common_prefix_loop :: "byte list \<Rightarrow> byte list \<Rightarrow> nat \<Rightarrow> nat" where
  "common_prefix_loop (x # p1) (y # p2) n =
     (if x = y then common_prefix_loop p1 p2 (Suc n) else n)"
| "common_prefix_loop _ _ n = n"

text \<open>
  \<open>common_prefix\<close>: the loop compares \<open>*p1\<close> and \<open>*p2\<close> before it tests the two
  lengths, so at the end of the shorter key it looks at one byte behind it, inside the
  \<open>btkey\<close> buffer; whatever that byte is, it leaves with \<open>n\<close> the shorter length.
\<close>

definition common_prefix :: "byte list \<Rightarrow> byte list \<Rightarrow> byte list" where
  "common_prefix mn mx =
     (if length mn = 0 \<or> length mx = 0 then []
      else take (common_prefix_loop mn mx 0) mx)"

definition remove_prefix :: "btval \<Rightarrow> nat \<Rightarrow> btval" where
  "remove_prefix key pfxlen =
     (if pfxlen = 0 then key
      else \<lparr>bv_data = drop pfxlen (bv_data key), bv_size = size_sub (bv_size key) pfxlen\<rparr>)"

text \<open>
  \<open>concat_prefix\<close> into a buffer of \<open>cap\<close> bytes: undefined when the result does
  not fit or when \<open>n2\<close> bytes are not there to copy.
\<close>

definition concat_prefix :: "nat \<Rightarrow> byte list \<Rightarrow> byte list \<Rightarrow> nat \<Rightarrow> byte list option" where
  "concat_prefix cap s1 s2 n2 =
     (if length s1 + n2 \<le> cap \<and> n2 \<le> length s2 then Some (s1 @ take n2 s2)
      else None)"

subsection \<open>Separator reduction\<close>

text \<open>
  The loop of \<open>bt_reduce_separator\<close>.  \<open>p1\<close> and \<open>p2\<close> are the bytes of the two keys
  from the current position on; the first comparison is made before any length is
  looked at, so with an empty key it reads a byte that is not part of the key.
\<close>

fun reduce_loop :: "byte list \<Rightarrow> byte list \<Rightarrow> nat \<Rightarrow> nat \<Rightarrow> nat \<Rightarrow> nat option" where
  "reduce_loop (x # p1) (y # p2) n mksize ssize =
     (if x = y
      then (if Suc n = mksize \<or> Suc n = ssize then Some (Suc n)
            else reduce_loop p1 p2 (Suc n) mksize ssize)
      else Some n)"
| "reduce_loop _ _ n mksize ssize = None"

definition bt_reduce_separator :: "node \<Rightarrow> btval \<Rightarrow> btval option" where
  "bt_reduce_separator mn sep =
     (case reduce_loop (n_key mn) (take (bv_size sep) (bv_data sep)) 0 (ksize mn) (bv_size sep) of
        None \<Rightarrow> None
      | Some n \<Rightarrow> Some (sep\<lparr>bv_size := n + 1\<rparr>))"

text \<open>
  The choice of the separator in \<open>btree_split\<close>: \<open>copy\<close> is the copy of the page
  being split, \<open>newindx\<close> the slot the new key goes to, \<open>pfxlen\<close> the length of the
  prefix of the page.
\<close>

definition IS_LEAFP :: "page \<Rightarrow> bool" where "IS_LEAFP p = (P_LEAF \<in> pg_flags p)"
definition IS_BRANCHP :: "page \<Rightarrow> bool" where "IS_BRANCHP p = (P_BRANCH \<in> pg_flags p)"
definition IS_OVERFLOWP :: "page \<Rightarrow> bool" where "IS_OVERFLOWP p = (P_OVERFLOW \<in> pg_flags p)"

definition btree_split_sepkey :: "page \<Rightarrow> nat \<Rightarrow> btval \<Rightarrow> nat \<Rightarrow> btval option" where
  "btree_split_sepkey copy newindx newkey pfxlen =
     (let split_indx = NUMKEYSP copy div 2 + 1 in
      do {
        sepkey \<leftarrow> (if newindx = split_indx then Some (remove_prefix newkey pfxlen)
                   else map_option NODEKEY (NODEPTRP copy split_indx));
        if IS_LEAFP copy then do {
          node \<leftarrow> NODEPTRP copy (split_indx - 1);
          bt_reduce_separator node sepkey
        } else Some sepkey
      })"

text \<open>The byte-lexicographic order of keys, bytes compared as unsigned.\<close>

fun bytes_less :: "byte list \<Rightarrow> byte list \<Rightarrow> bool" where
  "bytes_less (x # xs) (y # ys) = (x < y \<or> (x = y \<and> bytes_less xs ys))"
| "bytes_less [] (y # ys) = True"
| "bytes_less _ [] = False"

section \<open>The database handle and its memory\<close>

text \<open>
  \<open>struct mpage\<close>.  An in-memory page lives at an address; \<open>mp_parent\<close> is the address
  of the parent's \<open>struct mpage\<close>.
\<close>

record mpage =
  mp_parent :: "nat option"
  mp_parent_index :: nat
  mp_prefix :: "byte list"
  mp_page :: page
  mp_pgno :: nat
  mp_ref :: int
  mp_dirty :: bool

record btree_txn =
  t_root :: nat
  t_next_pgno :: nat
  t_dirty_queue :: "nat list"
  t_flags :: "tflag set"

text \<open>
  \<open>struct btree\<close> together with what it reaches: the file behind \<open>fd\<close> (\<open>bt_file\<close>, its
  whole pages in order, and \<open>bt_tail\<close>, the number of bytes after the last whole page),
  the allocated pages (\<open>bt_mem\<close>) and transactions (\<open>bt_txns\<close>) by address, the page
  cache as the list of its (page number, address) entries, and \<open>errno\<close>.  The
  environment: \<open>bt_io_ok\<close> says whether \<open>write\<close>, \<open>writev\<close>, \<open>fsync\<close> and \<open>ftruncate\<close>
  succeed, \<open>bt_flock_ok\<close> whether \<open>flock\<close> gets the lock, \<open>bt_clock\<close> is \<open>time(0)\<close>.
\<close>

record btree =
  bt_file :: "page list"
  bt_tail :: nat
  bt_io_ok :: bool
  bt_flock_ok :: bool
  bt_clock :: nat
  bt_errno :: errno
  bt_flags :: "bflag set"
  bt_head :: bt_head
  bt_meta :: bt_meta
  bt_mem :: "nat \<Rightarrow> mpage option"
  bt_next_addr :: nat
  bt_page_cache :: "(nat \<times> nat) list"
  bt_lru_queue :: "nat list"
  bt_txns :: "nat \<Rightarrow> btree_txn option"
  bt_txn :: "nat option"
  bt_ref :: int
  bt_cache_size :: nat
  bt_max_cache :: nat
  bt_size :: nat

definition psize :: "btree \<Rightarrow> nat" where "psize bt = h_psize (bt_head bt)"

definition zero_meta :: bt_meta where
  "zero_meta = \<lparr>m_flags = {}, m_root = 0, m_prev_meta = 0, m_created_at = 0,
     m_branch_pages = 0, m_leaf_pages = 0, m_overflow_pages = 0, m_revisions = 0,
     m_depth = 0, m_entries = 0, m_hash = []\<rparr>"

text \<open>A page of the file that is not a page of the tree (padding, a torn write).\<close>

definition junk_page :: page where
  "junk_page = \<lparr>pg_pgno = P_INVALID, pg_flags = {}, pg_lower = 0, pg_upper = 0, pg_nodes = [],
     pg_next = 0, pg_odata = [], pg_meta = zero_meta\<rparr>"

definition set_errno :: "errno \<Rightarrow> btree \<Rightarrow> btree" where
  "set_errno e bt = bt\<lparr>bt_errno := e\<rparr>"

definition mp_update :: "nat \<Rightarrow> (mpage \<Rightarrow> mpage) \<Rightarrow> btree \<Rightarrow> btree option" where
  "mp_update a f bt = do { mp \<leftarrow> bt_mem bt a; Some (bt\<lparr>bt_mem := (bt_mem bt)(a \<mapsto> f mp)\<rparr>) }"

definition page_update :: "nat \<Rightarrow> (page \<Rightarrow> page) \<Rightarrow> btree \<Rightarrow> btree option" where
  "page_update a f bt = mp_update a (\<lambda>mp. mp\<lparr>mp_page := f (mp_page mp)\<rparr>) bt"

definition txn_update :: "nat \<Rightarrow> (btree_txn \<Rightarrow> btree_txn) \<Rightarrow> btree \<Rightarrow> btree option" where
  "txn_update h f bt = do { t \<leftarrow> bt_txns bt h; Some (bt\<lparr>bt_txns := (bt_txns bt)(h \<mapsto> f t)\<rparr>) }"

definition meta_update :: "(bt_meta \<Rightarrow> bt_meta) \<Rightarrow> btree \<Rightarrow> btree" where
  "meta_update f bt = bt\<lparr>bt_meta := f (bt_meta bt)\<rparr>"

text \<open>The macros on in-memory pages.\<close>

definition NUMKEYS :: "mpage \<Rightarrow> nat" where "NUMKEYS mp = NUMKEYSP (mp_page mp)"
definition NODEPTR :: "mpage \<Rightarrow> nat \<Rightarrow> node option" where "NODEPTR mp i = NODEPTRP (mp_page mp) i"
definition IS_LEAF :: "mpage \<Rightarrow> bool" where "IS_LEAF mp = IS_LEAFP (mp_page mp)"
definition IS_BRANCH :: "mpage \<Rightarrow> bool" where "IS_BRANCH mp = IS_BRANCHP (mp_page mp)"
definition IS_OVERFLOW :: "mpage \<Rightarrow> bool" where "IS_OVERFLOW mp = IS_OVERFLOWP (mp_page mp)"

text \<open>\<open>SIZELEFT\<close> is cast to \<open>indx_t\<close>, 16 bits.\<close>

definition SIZELEFT :: "mpage \<Rightarrow> nat" where
  "SIZELEFT mp = (pg_upper (mp_page mp) + 65536 - pg_lower (mp_page mp) mod 65536) mod 65536"

definition PAGEFILL :: "btree \<Rightarrow> mpage \<Rightarrow> nat" where
  "PAGEFILL bt mp = 1000 * (psize bt - PAGEHDRSZ - SIZELEFT mp) div (psize bt - PAGEHDRSZ)"

subsection \<open>Page cache\<close>

definition mpage_lookup :: "nat \<Rightarrow> btree \<Rightarrow> nat option \<times> btree" where
  "mpage_lookup pgno bt =
     (case map_of (bt_page_cache bt) pgno of
        None \<Rightarrow> (None, bt)
      | Some a \<Rightarrow> (Some a, bt\<lparr>bt_lru_queue := remove1 a (bt_lru_queue bt) @ [a]\<rparr>))"

text \<open>\<open>RB_INSERT\<close> leaves the tree as it is when the page number is already in it.\<close>

definition mpage_add :: "nat \<Rightarrow> btree \<Rightarrow> btree option" where
  "mpage_add a bt = do {
     mp \<leftarrow> bt_mem bt a;
     Some (bt\<lparr>bt_page_cache :=
                (if map_of (bt_page_cache bt) (mp_pgno mp) = None
                 then bt_page_cache bt @ [(mp_pgno mp, a)] else bt_page_cache bt),
              bt_cache_size := bt_cache_size bt + 1,
              bt_lru_queue := bt_lru_queue bt @ [a]\<rparr>)
   }"

definition mpage_free :: "nat \<Rightarrow> btree \<Rightarrow> btree" where
  "mpage_free a bt = bt\<lparr>bt_mem := (bt_mem bt)(a := None)\<rparr>"

definition mpage_del :: "nat \<Rightarrow> btree \<Rightarrow> btree" where
  "mpage_del a bt =
     bt\<lparr>bt_page_cache := filter (\<lambda>e. snd e \<noteq> a) (bt_page_cache bt),
        bt_cache_size := bt_cache_size bt - 1,
        bt_lru_queue := remove1 a (bt_lru_queue bt)\<rparr>"

fun mpage_flush_loop :: "(nat \<times> nat) list \<Rightarrow> btree \<Rightarrow> btree" where
  "mpage_flush_loop [] bt = bt"
| "mpage_flush_loop (e # es) bt = mpage_flush_loop es (mpage_free (snd e) (mpage_del (snd e) bt))"

definition mpage_flush :: "btree \<Rightarrow> btree" where
  "mpage_flush bt = mpage_flush_loop (bt_page_cache bt) bt"

definition mpage_copy :: "nat \<Rightarrow> btree \<Rightarrow> (nat \<times> btree) option" where
  "mpage_copy a bt = do {
     mp \<leftarrow> bt_mem bt a;
     let c = bt_next_addr bt;
     Some (c, bt\<lparr>bt_next_addr := c + 1,
                 bt_mem := (bt_mem bt)(c \<mapsto> \<lparr>mp_parent = mp_parent mp,
                   mp_parent_index = mp_parent_index mp, mp_prefix = mp_prefix mp,
                   mp_page = mp_page mp, mp_pgno = mp_pgno mp, mp_ref = 0, mp_dirty = False\<rparr>)\<rparr>)
   }"

fun mpage_prune_loop :: "nat list \<Rightarrow> btree \<Rightarrow> btree option" where
  "mpage_prune_loop [] bt = Some bt"
| "mpage_prune_loop (a # rest) bt =
     (if bt_cache_size bt \<le> bt_max_cache bt then Some bt
      else do {
        mp \<leftarrow> bt_mem bt a;
        if \<not> mp_dirty mp \<and> mp_ref mp \<le> 0
        then mpage_prune_loop rest (mpage_free a (mpage_del a bt))
        else mpage_prune_loop rest bt
      })"

definition mpage_prune :: "btree \<Rightarrow> btree option" where
  "mpage_prune bt = mpage_prune_loop (bt_lru_queue bt) bt"

definition mpage_dirty :: "nat \<Rightarrow> btree \<Rightarrow> btree option" where
  "mpage_dirty a bt = do {
     mp \<leftarrow> bt_mem bt a;
     if \<not> mp_dirty mp then do {
       bt \<leftarrow> mp_update a (\<lambda>mp. mp\<lparr>mp_dirty := True\<rparr>) bt;
       h \<leftarrow> bt_txn bt;
       txn_update h (\<lambda>t. t\<lparr>t_dirty_queue := t_dirty_queue t @ [a]\<rparr>) bt
     } else Some bt
   }"

text \<open>\<open>NODEPGNO(NODEPTR(mp, i)) = pgno\<close>.\<close>

definition set_node_pgno :: "nat \<Rightarrow> nat \<Rightarrow> nat \<Rightarrow> btree \<Rightarrow> btree option" where
  "set_node_pgno a i pgno bt = do {
     mp \<leftarrow> bt_mem bt a;
     nd \<leftarrow> NODEPTR mp i;
     page_update a (\<lambda>p. p\<lparr>pg_nodes := (pg_nodes p)[i := nd\<lparr>n_p := pgno\<rparr>]\<rparr>) bt
   }"

text \<open>\<open>bt->txn->next_pgno++\<close>, on \<open>pgno_t\<close>.\<close>

definition alloc_pgno :: "btree \<Rightarrow> (nat \<times> btree) option" where
  "alloc_pgno bt = do {
     h \<leftarrow> bt_txn bt;
     t \<leftarrow> bt_txns bt h;
     bt \<leftarrow> txn_update h (\<lambda>t. t\<lparr>t_next_pgno := u32_inc (t_next_pgno t)\<rparr>) bt;
     Some (t_next_pgno t, bt)
   }"

definition mpage_touch :: "nat \<Rightarrow> btree \<Rightarrow> (nat \<times> btree) option" where
  "mpage_touch a bt = do {
     mp \<leftarrow> bt_mem bt a;
     if \<not> mp_dirty mp then do {
       (a, bt) \<leftarrow> (if mp_ref mp = 0 then Some (a, mpage_del a bt) else mpage_copy a bt);
       (pgno, bt) \<leftarrow> alloc_pgno bt;
       bt \<leftarrow> mp_update a (\<lambda>mp. mp\<lparr>mp_pgno := pgno, mp_page := (mp_page mp)\<lparr>pg_pgno := pgno\<rparr>\<rparr>) bt;
       bt \<leftarrow> mpage_dirty a bt;
       bt \<leftarrow> mpage_add a bt;
       mp \<leftarrow> bt_mem bt a;
       case mp_parent mp of
         None \<Rightarrow> Some (a, bt)
       | Some pa \<Rightarrow> do { bt \<leftarrow> set_node_pgno pa (mp_parent_index mp) pgno bt; Some (a, bt) }
     } else Some (a, bt)
   }"

subsection \<open>Reading pages\<close>

text \<open>
  \<open>pread\<close> of one page at \<open>pgno * psize\<close>: a whole page, a short read inside the tail of
  the file, or 0 bytes behind its end.
\<close>

definition btree_read_page :: "nat \<Rightarrow> btree \<Rightarrow> (rc \<times> page) \<times> btree" where
  "btree_read_page pgno bt =
     (if pgno < length (bt_file bt) then
        (if pg_pgno (bt_file bt ! pgno) \<noteq> pgno then ((BT_FAIL, junk_page), set_errno EINVAL bt)
         else ((BT_SUCCESS, bt_file bt ! pgno), bt))
      else if pgno = length (bt_file bt) \<and> 0 < bt_tail bt
      then ((BT_FAIL, junk_page), set_errno EINVAL bt)
      else ((BT_FAIL, junk_page), set_errno ENOENT bt))"

definition btree_get_mpage :: "nat \<Rightarrow> btree \<Rightarrow> (nat option \<times> btree) option" where
  "btree_get_mpage pgno bt =
     (case mpage_lookup pgno bt of
        (Some a, bt) \<Rightarrow> Some (Some a, bt)
      | (None, bt) \<Rightarrow>
          (case btree_read_page pgno bt of
             ((BT_FAIL, _), bt) \<Rightarrow> Some (None, bt)
           | ((BT_SUCCESS, page), bt) \<Rightarrow> do {
               let a = bt_next_addr bt;
               let bt = bt\<lparr>bt_next_addr := a + 1,
                          bt_mem := (bt_mem bt)(a \<mapsto> \<lparr>mp_parent = None, mp_parent_index = 0,
                            mp_prefix = [], mp_page = page, mp_pgno = pgno, mp_ref = 0,
                            mp_dirty = False\<rparr>)\<rparr>;
               bt \<leftarrow> mpage_add a bt;
               Some (Some a, bt)
             }))"

subsection \<open>New pages\<close>

definition btree_new_page :: "pflag set \<Rightarrow> btree \<Rightarrow> (nat \<times> btree) option" where
  "btree_new_page flags bt = do {
     (pgno, bt) \<leftarrow> alloc_pgno bt;
     let a = bt_next_addr bt;
     let mp = \<lparr>mp_parent = None, mp_parent_index = 0, mp_prefix = [],
                mp_page = \<lparr>pg_pgno = pgno, pg_flags = flags, pg_lower = PAGEHDRSZ,
                  pg_upper = psize bt, pg_nodes = [], pg_next = 0, pg_odata = [],
                  pg_meta = zero_meta\<rparr>,
                mp_pgno = pgno, mp_ref = 0, mp_dirty = False\<rparr>;
     let bt = bt\<lparr>bt_next_addr := a + 1, bt_mem := (bt_mem bt)(a \<mapsto> mp)\<rparr>;
     let bt = (if IS_BRANCH mp then meta_update (\<lambda>m. m\<lparr>m_branch_pages := u32_inc (m_branch_pages m)\<rparr>) bt
               else if IS_LEAF mp then meta_update (\<lambda>m. m\<lparr>m_leaf_pages := u32_inc (m_leaf_pages m)\<rparr>) bt
               else if IS_OVERFLOW mp then meta_update (\<lambda>m. m\<lparr>m_overflow_pages := u32_inc (m_overflow_pages m)\<rparr>) bt
               else bt);
     bt \<leftarrow> mpage_add a bt;
     bt \<leftarrow> mpage_dirty a bt;
     Some (a, bt)
   }"

section \<open>Transactions and the meta page\<close>

definition file_size :: "btree \<Rightarrow> nat" where
  "file_size bt = length (bt_file bt) * psize bt + bt_tail bt"

text \<open>
  \<open>write\<close> and \<open>writev\<close> on the descriptor opened with \<open>O_APPEND\<close>: the pages go behind
  the end of the file; behind a partial page they do not land on a page boundary.
\<close>

definition file_append :: "page list \<Rightarrow> btree \<Rightarrow> bool \<times> btree" where
  "file_append ps bt =
     (if bt_io_ok bt
      then (True, bt\<lparr>bt_file := bt_file bt @ (if bt_tail bt = 0 then ps else map (\<lambda>_. junk_page) ps)\<rparr>)
      else (False, bt))"

definition btree_sync :: "btree \<Rightarrow> bool" where
  "btree_sync bt = (if BT_NOSYNC \<notin> bt_flags bt then bt_io_ok bt else True)"

definition btree_is_meta_page :: "page \<Rightarrow> btree \<Rightarrow> bool \<times> btree" where
  "btree_is_meta_page p bt =
     (let m = pg_meta p in
      if P_META \<notin> pg_flags p then (False, set_errno EINVAL bt)
      else if m_root m \<ge> pg_pgno p \<and> m_root m \<noteq> P_INVALID then (False, set_errno EINVAL bt)
      else if SHA256 m \<noteq> m_hash m then (False, set_errno EINVAL bt)
      else (True, bt))"

fun read_meta_scan :: "nat \<Rightarrow> nat \<Rightarrow> btree \<Rightarrow> (rc \<times> nat \<times> btree) option" where
  "read_meta_scan meta_pgno p_next bt =
     (if meta_pgno > 0 then
        (case btree_get_mpage meta_pgno bt of
           None \<Rightarrow> None
         | Some (None, bt) \<Rightarrow> Some (BT_FAIL, P_INVALID, set_errno EIO bt)
         | Some (Some a, bt) \<Rightarrow>
             (case bt_mem bt a of
                None \<Rightarrow> None
              | Some mp \<Rightarrow>
                  (case btree_is_meta_page (mp_page mp) bt of
                     (True, bt) \<Rightarrow>
                       if BT_TOMBSTONE \<in> m_flags (pg_meta (mp_page mp))
                       then Some (BT_FAIL, p_next, set_errno ESTALE bt)
                       else Some (BT_SUCCESS, p_next, bt\<lparr>bt_meta := pg_meta (mp_page mp)\<rparr>)
                   | (False, bt) \<Rightarrow> read_meta_scan (meta_pgno - 1) p_next bt)))
      else Some (BT_FAIL, P_INVALID, set_errno EIO bt))"

text \<open>\<open>btree_read_meta\<close>; the second component of the result is what it leaves in \<open>*p_next\<close>.\<close>

definition btree_read_meta :: "btree \<Rightarrow> (rc \<times> nat \<times> btree) option" where
  "btree_read_meta bt =
     (let size = file_size bt in
      if size < bt_size bt then Some (BT_FAIL, P_INVALID, set_errno EIO bt)
      else if size = psize bt then Some (BT_SUCCESS, 1, bt)
      else if size div psize bt = 0 then Some (BT_FAIL, P_INVALID, set_errno EIO bt)
      else
        let meta_pgno = size div psize bt - 1;
            next_pgno = (if size mod psize bt \<noteq> 0 then size div psize bt + 1 else size div psize bt);
            bt = (if size mod psize bt \<noteq> 0 then bt\<lparr>bt_flags := insert BT_FIXPADDING (bt_flags bt)\<rparr> else bt)
        in if size = bt_size bt then
             (if BT_TOMBSTONE \<in> m_flags (bt_meta bt) then Some (BT_FAIL, next_pgno, set_errno ESTALE bt)
              else Some (BT_SUCCESS, next_pgno, bt))
           else read_meta_scan meta_pgno next_pgno (bt\<lparr>bt_size := size\<rparr>))"

definition btree_close :: "btree \<Rightarrow> btree" where
  "btree_close bt =
     (let bt = bt\<lparr>bt_ref := bt_ref bt - 1\<rparr> in
      if bt_ref bt = 0 then mpage_flush bt else bt)"

fun abort_loop :: "nat list \<Rightarrow> btree \<Rightarrow> btree" where
  "abort_loop [] bt = bt"
| "abort_loop (a # q) bt = abort_loop q (mpage_free a (mpage_del a bt))"

definition btree_txn_abort :: "nat option \<Rightarrow> btree \<Rightarrow> btree option" where
  "btree_txn_abort txn bt =
     (case txn of
        None \<Rightarrow> Some bt
      | Some h \<Rightarrow> do {
          t \<leftarrow> bt_txns bt h;
          let bt = (if BT_TXN_RDONLY \<notin> t_flags t
                    then (abort_loop (t_dirty_queue t) bt)\<lparr>bt_txn := None\<rparr> else bt);
          let bt = btree_close bt;
          Some (bt\<lparr>bt_txns := (bt_txns bt)(h := None)\<rparr>)
        })"

definition btree_txn_begin :: "bool \<Rightarrow> btree \<Rightarrow> (nat option \<times> btree) option" where
  "btree_txn_begin rdonly bt =
     (if \<not> rdonly \<and> bt_txn bt \<noteq> None then Some (None, set_errno EBUSY bt)
      else if \<not> rdonly \<and> \<not> bt_flock_ok bt then Some (None, set_errno EBUSY bt)
      else do {
        let h = bt_next_addr bt;
        let bt = bt\<lparr>bt_next_addr := h + 1,
                   bt_txns := (bt_txns bt)(h \<mapsto> \<lparr>t_root = 0, t_next_pgno = 0, t_dirty_queue = [],
                     t_flags = (if rdonly then {BT_TXN_RDONLY} else {})\<rparr>),
                   bt_txn := (if rdonly then bt_txn bt else Some h),
                   bt_ref := bt_ref bt + 1\<rparr>;
        (rc, p_next, bt) \<leftarrow> btree_read_meta bt;
        bt \<leftarrow> txn_update h (\<lambda>t. t\<lparr>t_next_pgno := p_next\<rparr>) bt;
        if rc \<noteq> BT_SUCCESS then do { bt \<leftarrow> btree_txn_abort (Some h) bt; Some (None, bt) }
        else do {
          bt \<leftarrow> txn_update h (\<lambda>t. t\<lparr>t_root := m_root (bt_meta bt)\<rparr>) bt;
          Some (Some h, bt)
        }
      })"

definition btree_write_meta :: "nat \<Rightarrow> mflag set \<Rightarrow> btree \<Rightarrow> (rc \<times> btree) option" where
  "btree_write_meta root flags bt = do {
     (a, bt) \<leftarrow> btree_new_page {P_META} bt;
     let bt = meta_update (\<lambda>m. m\<lparr>m_prev_meta := m_root m\<rparr>) bt;
     let bt = meta_update (\<lambda>m. m\<lparr>m_root := root, m_flags := flags, m_created_at := bt_clock bt,
                m_revisions := u32_inc (m_revisions m)\<rparr>) bt;
     let bt = meta_update (\<lambda>m. m\<lparr>m_hash := SHA256 m\<rparr>) bt;
     bt \<leftarrow> page_update a (\<lambda>p. p\<lparr>pg_meta := bt_meta bt\<rparr>) bt;
     mp \<leftarrow> bt_mem bt a;
     let (ok, bt) = file_append [mp_page mp] bt;
     bt \<leftarrow> mp_update a (\<lambda>mp. mp\<lparr>mp_dirty := False\<rparr>) bt;
     h \<leftarrow> bt_txn bt;
     t \<leftarrow> bt_txns bt h;
     bt \<leftarrow> (case t_dirty_queue t of [] \<Rightarrow> None
            | _ # q \<Rightarrow> txn_update h (\<lambda>t. t\<lparr>t_dirty_queue := q\<rparr>) bt);
     if \<not> ok then Some (BT_FAIL, bt)
     else Some (BT_SUCCESS, bt\<lparr>bt_size := file_size bt\<rparr>)
   }"

text \<open>The pages of a batch of dirty pages, and the end of their dirty state.\<close>

fun batch_pages :: "nat list \<Rightarrow> btree \<Rightarrow> page list option" where
  "batch_pages [] bt = Some []"
| "batch_pages (a # q) bt = do { mp \<leftarrow> bt_mem bt a; ps \<leftarrow> batch_pages q bt; Some (mp_page mp # ps) }"

fun batch_clean :: "nat list \<Rightarrow> btree \<Rightarrow> btree option" where
  "batch_clean [] bt = Some bt"
| "batch_clean (a # q) bt = do { bt \<leftarrow> mp_update a (\<lambda>mp. mp\<lparr>mp_dirty := False\<rparr>) bt; batch_clean q bt }"

definition BT_COMMIT_PAGES :: nat where "BT_COMMIT_PAGES = 64"

text \<open>
  The write loop of \<open>btree_txn_commit\<close>: \<open>False\<close> when \<open>writev\<close> did not write the whole
  batch.
\<close>

partial_function (option) commit_write_loop :: "nat \<Rightarrow> btree \<Rightarrow> (bool \<times> btree) option" where
  "commit_write_loop h bt = do {
     t \<leftarrow> bt_txns bt h;
     let batch = take BT_COMMIT_PAGES (t_dirty_queue t);
     let done = (length (t_dirty_queue t) < BT_COMMIT_PAGES);
     if batch = [] then Some (True, bt)
     else do {
       ps \<leftarrow> batch_pages batch bt;
       let (ok, bt) = file_append ps bt;
       if \<not> ok then Some (False, bt)
       else do {
         bt \<leftarrow> batch_clean batch bt;
         bt \<leftarrow> txn_update h (\<lambda>t. t\<lparr>t_dirty_queue := drop BT_COMMIT_PAGES (t_dirty_queue t)\<rparr>) bt;
         if done then Some (True, bt) else commit_write_loop h bt
       }
     }
   }"

declare commit_write_loop.simps [code]

definition btree_txn_commit :: "nat \<Rightarrow> btree \<Rightarrow> (rc \<times> btree) option" where
  "btree_txn_commit h bt = do {
     t \<leftarrow> bt_txns bt h;
     if BT_TXN_RDONLY \<in> t_flags t then do {
       bt \<leftarrow> btree_txn_abort (Some h) bt;
       Some (BT_FAIL, set_errno EPERM bt)
     } else if Some h \<noteq> bt_txn bt then do {
       bt \<leftarrow> btree_txn_abort (Some h) bt;
       Some (BT_FAIL, set_errno EINVAL bt)
     } else if BT_TXN_ERROR \<in> t_flags t then do {
       bt \<leftarrow> btree_txn_abort (Some h) bt;
       Some (BT_FAIL, set_errno EINVAL bt)
     } else if t_dirty_queue t = [] then do {
       bt \<leftarrow> mpage_prune bt;
       bt \<leftarrow> btree_txn_abort (Some h) bt;
       Some (BT_SUCCESS, bt)
     } else if BT_FIXPADDING \<in> bt_flags bt \<and> \<not> bt_io_ok bt then do {
       bt \<leftarrow> btree_txn_abort (Some h) bt;
       Some (BT_FAIL, bt)
     } else do {
       let bt = (if BT_FIXPADDING \<in> bt_flags bt
                 then bt\<lparr>bt_file := bt_file bt @ [junk_page], bt_tail := 0,
                        bt_flags := bt_flags bt - {BT_FIXPADDING}\<rparr>
                 else bt);
       (ok, bt) \<leftarrow> commit_write_loop h bt;
       if \<not> ok then do { bt \<leftarrow> btree_txn_abort (Some h) bt; Some (BT_FAIL, bt) }
       else if \<not> btree_sync bt then do { bt \<leftarrow> btree_txn_abort (Some h) bt; Some (BT_FAIL, bt) }
       else do {
         t \<leftarrow> bt_txns bt h;
         (rc, bt) \<leftarrow> btree_write_meta (t_root t) {} bt;
         if rc \<noteq> BT_SUCCESS \<or> \<not> btree_sync bt
         then do { bt \<leftarrow> btree_txn_abort (Some h) bt; Some (BT_FAIL, bt) }
         else do {
           bt \<leftarrow> mpage_prune bt;
           bt \<leftarrow> btree_txn_abort (Some h) bt;
           Some (BT_SUCCESS, bt)
         }
       }
     }
   }"

section \<open>Search\<close>

text \<open>
  The binary search of \<open>btree_search_node\<close>; \<open>high\<close> is a C \<open>int\<close> and may be
  \<open>-1\<close>.  It returns the last index looked at and the last comparison.
\<close>

partial_function (option) search_node_loop ::
    "mpage \<Rightarrow> btval \<Rightarrow> nat \<Rightarrow> int \<Rightarrow> nat \<Rightarrow> int \<Rightarrow> (nat \<times> int) option" where
  "search_node_loop mp key low high i rc =
     (if int low \<le> high then do {
        let i = nat ((int low + high) div 2);
        node \<leftarrow> NODEPTR mp i;
        rc \<leftarrow> bt_cmp key (NODEKEY node) (mp_prefix mp);
        if rc = 0 then Some (i, rc)
        else if rc > 0 then search_node_loop mp key (i + 1) high i rc
        else search_node_loop mp key low (int i - 1) i rc
      } else Some (i, rc))"

declare search_node_loop.simps [code]

text \<open>
  \<open>btree_search_node\<close>: \<open>None\<close> inside stands for the \<open>NULL\<close> it returns, otherwise
  the result is \<open>*exactp\<close> and \<open>*kip\<close>; the node is \<open>NODEPTR(mp, *kip)\<close>.
\<close>

definition btree_search_node :: "mpage \<Rightarrow> btval \<Rightarrow> (bool \<times> nat) option option" where
  "btree_search_node mp key = do {
     (i, rc) \<leftarrow> search_node_loop mp key (if IS_LEAF mp then 0 else 1) (int (NUMKEYS mp) - 1) 0 0;
     if rc > 0 \<and> i + 1 \<ge> NUMKEYS mp then Some None
     else Some (Some (rc = 0, if rc > 0 then i + 1 else i))
   }"

subsection \<open>The prefix of a page\<close>

definition expand_prefix :: "nat \<Rightarrow> nat \<Rightarrow> btree \<Rightarrow> byte list option" where
  "expand_prefix a indx bt = do {
     mp \<leftarrow> bt_mem bt a;
     node \<leftarrow> NODEPTR mp indx;
     concat_prefix MAXKEYSIZE (mp_prefix mp) (n_key node) (ksize node)
   }"

text \<open>The two walks up the parent chain in \<open>find_common_prefix\<close>.\<close>

partial_function (option) find_lbound :: "nat \<Rightarrow> btree \<Rightarrow> (nat \<times> nat) option" where
  "find_lbound lp bt = do {
     m \<leftarrow> bt_mem bt lp;
     case mp_parent m of
       None \<Rightarrow> Some (lp, 0)
     | Some p \<Rightarrow> if mp_parent_index m > 0 then Some (lp, mp_parent_index m) else find_lbound p bt
   }"

declare find_lbound.simps [code]

partial_function (option) find_ubound :: "nat \<Rightarrow> btree \<Rightarrow> (nat \<times> nat) option" where
  "find_ubound up bt = do {
     m \<leftarrow> bt_mem bt up;
     case mp_parent m of
       None \<Rightarrow> Some (up, 0)
     | Some p \<Rightarrow> do {
         pm \<leftarrow> bt_mem bt p;
         if mp_parent_index m + 1 < NUMKEYS pm then Some (up, mp_parent_index m + 1)
         else find_ubound p bt
       }
   }"

declare find_ubound.simps [code]

definition find_common_prefix :: "nat \<Rightarrow> btree \<Rightarrow> btree option" where
  "find_common_prefix a bt = do {
     bt \<leftarrow> mp_update a (\<lambda>m. m\<lparr>mp_prefix := []\<rparr>) bt;
     (lp, lbound) \<leftarrow> find_lbound a bt;
     (up, ubound) \<leftarrow> find_ubound a bt;
     lm \<leftarrow> bt_mem bt lp;
     um \<leftarrow> bt_mem bt up;
     m \<leftarrow> bt_mem bt a;
     case (mp_parent lm, mp_parent um) of
       (Some lpp, Some upp) \<Rightarrow> do {
         lprefix \<leftarrow> expand_prefix lpp lbound bt;
         uprefix \<leftarrow> expand_prefix upp ubound bt;
         mp_update a (\<lambda>m. m\<lparr>mp_prefix := common_prefix lprefix uprefix\<rparr>) bt
       }
     | _ \<Rightarrow>
         (case mp_parent m of
            Some p \<Rightarrow> do { pm \<leftarrow> bt_mem bt p; mp_update a (\<lambda>m. m\<lparr>mp_prefix := mp_prefix pm\<rparr>) bt }
          | None \<Rightarrow> Some bt)
   }"

subsection \<open>Cursors\<close>

text \<open>\<open>struct cursor\<close>; the stack holds the address of the page and \<open>ki\<close> of each frame.\<close>

record cursor =
  c_txn :: "nat option"
  c_stack :: "(nat \<times> nat) list"
  c_initialized :: bool
  c_eof :: bool


definition cursor_pop_page :: "cursor \<Rightarrow> btree \<Rightarrow> (cursor \<times> btree) option" where
  "cursor_pop_page c bt =
     (case c_stack c of
        [] \<Rightarrow> None
      | tp # rest \<Rightarrow> do {
          bt \<leftarrow> mp_update (fst tp) (\<lambda>m. m\<lparr>mp_ref := mp_ref m - 1\<rparr>) bt;
          Some (c\<lparr>c_stack := rest\<rparr>, bt)
        })"

definition cursor_push_page :: "cursor \<Rightarrow> nat \<Rightarrow> btree \<Rightarrow> (cursor \<times> btree) option" where
  "cursor_push_page c a bt = do {
     bt \<leftarrow> mp_update a (\<lambda>m. m\<lparr>mp_ref := mp_ref m + 1\<rparr>) bt;
     Some (c\<lparr>c_stack := (a, 0) # c_stack c\<rparr>, bt)
   }"

text \<open>\<open>CURSOR_TOP(cursor)->ki = i\<close>.\<close>

definition cursor_set_ki :: "cursor \<Rightarrow> nat \<Rightarrow> cursor option" where
  "cursor_set_ki c i =
     (case c_stack c of [] \<Rightarrow> None | tp # rest \<Rightarrow> Some (c\<lparr>c_stack := (fst tp, i) # rest\<rparr>))"

subsection \<open>Descent\<close>

text \<open>
  The loop of \<open>btree_search_page_root\<close>.  The result is the return code, the page left
  in \<open>*mpp\<close>, the cursor and the state.
\<close>

partial_function (option) search_page_loop ::
    "nat \<Rightarrow> btval option \<Rightarrow> cursor option \<Rightarrow> bool \<Rightarrow> btree \<Rightarrow> (rc \<times> nat \<times> cursor option \<times> btree) option" where
  "search_page_loop a key cursor modify bt = do {
     mp \<leftarrow> bt_mem bt a;
     if IS_BRANCH mp then do {
       i \<leftarrow> (case key of
              None \<Rightarrow> Some 0
            | Some k \<Rightarrow> do {
                r \<leftarrow> btree_search_node mp k;
                case r of
                  None \<Rightarrow> Some (NUMKEYS mp - 1)
                | Some (exact, i) \<Rightarrow> Some (if \<not> exact then i - 1 else i)
              });
       node \<leftarrow> NODEPTR mp i;
       cursor \<leftarrow> (case cursor of None \<Rightarrow> Some None | Some c \<Rightarrow> map_option Some (cursor_set_ki c i));
       (r, bt) \<leftarrow> btree_get_mpage (n_p node) bt;
       case r of
         None \<Rightarrow> Some (BT_FAIL, a, cursor, bt)
       | Some c \<Rightarrow> do {
           bt \<leftarrow> mp_update c (\<lambda>m. m\<lparr>mp_parent := Some a, mp_parent_index := i\<rparr>) bt;
           bt \<leftarrow> find_common_prefix c bt;
           (cursor, bt) \<leftarrow> (case cursor of
                              None \<Rightarrow> Some (None, bt)
                            | Some cu \<Rightarrow> do { (cu, bt) \<leftarrow> cursor_push_page cu c bt; Some (Some cu, bt) });
           (c, bt) \<leftarrow> (if modify then mpage_touch c bt else Some (c, bt));
           search_page_loop c key cursor modify bt
         }
     }
     else if \<not> IS_LEAF mp then Some (BT_FAIL, a, cursor, bt)
     else Some (BT_SUCCESS, a, cursor, bt)
   }"

declare search_page_loop.simps [code]

definition btree_search_page_root ::
    "nat \<Rightarrow> btval option \<Rightarrow> cursor option \<Rightarrow> bool \<Rightarrow> btree \<Rightarrow> (rc \<times> nat \<times> cursor option \<times> btree) option" where
  "btree_search_page_root root key cursor modify bt = do {
     (cursor, bt) \<leftarrow> (case cursor of
                        None \<Rightarrow> Some (None, bt)
                      | Some cu \<Rightarrow> do { (cu, bt) \<leftarrow> cursor_push_page cu root bt; Some (Some cu, bt) });
     search_page_loop root key cursor modify bt
   }"

definition btree_search_page ::
    "nat option \<Rightarrow> btval option \<Rightarrow> cursor option \<Rightarrow> bool \<Rightarrow> btree \<Rightarrow> (rc \<times> nat \<times> cursor option \<times> btree) option" where
  "btree_search_page txn key cursor modify bt =
     (if txn = None \<and> modify then Some (BT_FAIL, 0, cursor, set_errno EINVAL bt)
      else do {
        (rc, root, bt) \<leftarrow>
          (case txn of
             None \<Rightarrow> do { (rc, p_next, bt) \<leftarrow> btree_read_meta bt; Some (rc, m_root (bt_meta bt), bt) }
           | Some h \<Rightarrow> do {
               t \<leftarrow> bt_txns bt h;
               if BT_TXN_ERROR \<in> t_flags t then Some (BT_FAIL, 0, set_errno EINVAL bt)
               else Some (BT_SUCCESS, t_root t, bt)
             });
        if rc \<noteq> BT_SUCCESS then Some (BT_FAIL, 0, cursor, bt)
        else if root = P_INVALID then Some (BT_FAIL, 0, cursor, set_errno ENOENT bt)
        else do {
          (r, bt) \<leftarrow> btree_get_mpage root bt;
          case r of
            None \<Rightarrow> Some (BT_FAIL, 0, cursor, bt)
          | Some a \<Rightarrow> do {
              mp \<leftarrow> bt_mem bt a;
              (a, bt) \<leftarrow> (if modify \<and> \<not> mp_dirty mp then do {
                            (a, bt) \<leftarrow> mpage_touch a bt;
                            m \<leftarrow> bt_mem bt a;
                            h \<leftarrow> txn;
                            bt \<leftarrow> txn_update h (\<lambda>t. t\<lparr>t_root := mp_pgno m\<rparr>) bt;
                            Some (a, bt)
                          } else Some (a, bt));
              btree_search_page_root a key cursor modify bt
            }
        }
      })"

subsection \<open>Reading the data of a leaf node\<close>

text \<open>
  The loop over the overflow pages in \<open>btree_read_data\<close>.  On a page that is not an
  overflow page it frees the page, which stays in the cache.
\<close>

partial_function (option) read_overflow ::
    "nat \<Rightarrow> nat \<Rightarrow> nat \<Rightarrow> byte list \<Rightarrow> btree \<Rightarrow> (rc \<times> byte list \<times> btree) option" where
  "read_overflow pgno sz dsz acc bt =
     (if sz < dsz then do {
        (r, bt) \<leftarrow> btree_get_mpage pgno bt;
        case r of
          None \<Rightarrow> Some (BT_FAIL, [], bt)
        | Some a \<Rightarrow> do {
            omp \<leftarrow> bt_mem bt a;
            if \<not> IS_OVERFLOW omp then Some (BT_FAIL, [], mpage_free a bt)
            else do {
              let psz = min (dsz - sz) (psize bt - PAGEHDRSZ);
              if length (pg_odata (mp_page omp)) < psz then None
              else read_overflow (pg_next (mp_page omp)) (sz + psz) dsz
                     (acc @ take psz (pg_odata (mp_page omp))) bt
            }
          }
      } else Some (BT_SUCCESS, acc, bt))"

declare read_overflow.simps [code]

text \<open>
  \<open>btree_read_data\<close>.  With a page given the data borrows the page (\<open>ref++\<close>);
  without one it is a copy.
\<close>

definition btree_read_data :: "nat option \<Rightarrow> node \<Rightarrow> btree \<Rightarrow> (rc \<times> btval \<times> btree) option" where
  "btree_read_data mpo leaf bt =
     (if F_BIGDATA \<notin> n_flags leaf then
        (case n_payload leaf of
           OvRef p \<Rightarrow> None
         | Inline d \<Rightarrow>
             if length d < n_p leaf then None
             else if n_p leaf > 0 then
               (case mpo of
                  None \<Rightarrow> Some (BT_SUCCESS, \<lparr>bv_data = take (n_p leaf) d, bv_size = n_p leaf\<rparr>, bt)
                | Some a \<Rightarrow> do {
                    bt \<leftarrow> mp_update a (\<lambda>m. m\<lparr>mp_ref := mp_ref m + 1\<rparr>) bt;
                    Some (BT_SUCCESS, \<lparr>bv_data = take (n_p leaf) d, bv_size = n_p leaf\<rparr>, bt)
                  })
             else Some (BT_SUCCESS, \<lparr>bv_data = [], bv_size = 0\<rparr>, bt))
      else
        (case n_payload leaf of
           Inline d \<Rightarrow> None
         | OvRef pgno \<Rightarrow> do {
             (rc, bytes, bt) \<leftarrow> read_overflow pgno 0 (n_p leaf) [] bt;
             Some (rc, \<lparr>bv_data = bytes, bv_size = n_p leaf\<rparr>, bt)
           }))"

subsection \<open>Lookup\<close>

text \<open>
  \<open>btree_txn_get\<close>, on the one database of the state, so that \<open>bt\<close> is given and is
  the database of the transaction.
\<close>

definition btree_txn_get :: "nat option \<Rightarrow> btval \<Rightarrow> btree \<Rightarrow> (rc \<times> btval \<times> btree) option" where
  "btree_txn_get txn key bt =
     (if bv_size key = 0 \<or> bv_size key > MAXKEYSIZE
      then Some (BT_FAIL, \<lparr>bv_data = [], bv_size = 0\<rparr>, set_errno EINVAL bt)
      else do {
        (rc, a, cu, bt) \<leftarrow> btree_search_page txn (Some key) None False bt;
        if rc \<noteq> BT_SUCCESS then Some (rc, \<lparr>bv_data = [], bv_size = 0\<rparr>, bt)
        else do {
          mp \<leftarrow> bt_mem bt a;
          r \<leftarrow> btree_search_node mp key;
          (rc, data, bt) \<leftarrow>
            (case r of
               Some (True, ki) \<Rightarrow> do { leaf \<leftarrow> NODEPTR mp ki; btree_read_data (Some a) leaf bt }
             | _ \<Rightarrow> Some (BT_FAIL, \<lparr>bv_data = [], bv_size = 0\<rparr>, set_errno ENOENT bt));
          bt \<leftarrow> mpage_prune bt;
          Some (rc, data, bt)
        }
      })"

subsection \<open>Cursor operations\<close>









text \<open>\<open>while (CURSOR_TOP(cursor) != NULL) cursor_pop_page(cursor)\<close>, along the stack.\<close>

fun cursor_pop_all :: "(nat \<times> nat) list \<Rightarrow> cursor \<Rightarrow> btree \<Rightarrow> (cursor \<times> btree) option" where
  "cursor_pop_all [] c bt = Some (c, bt)"
| "cursor_pop_all (f # fs) c bt = do { (c, bt) \<leftarrow> cursor_pop_page c bt; cursor_pop_all fs c bt }"



section \<open>Nodes on a page\<close>

definition bt_leaf_size :: "btree \<Rightarrow> btval \<Rightarrow> btval \<Rightarrow> nat" where
  "bt_leaf_size bt key data =
     (let sz = NODESIZE + bv_size key + bv_size data in
      (if bv_size data \<ge> psize bt div BT_MINKEYS then sz + 4 - bv_size data else sz) + 2)"

definition bt_branch_size :: "btval option \<Rightarrow> nat" where
  "bt_branch_size key = NODESIZE + (case key of None \<Rightarrow> 0 | Some k \<Rightarrow> bv_size k) + 2"

text \<open>
  \<open>btree_write_overflow_data\<close>: \<open>a\<close> is the overflow page written next, \<open>done\<close> the
  number of bytes already written.
\<close>

partial_function (option) btree_write_overflow_data ::
    "nat \<Rightarrow> byte list \<Rightarrow> nat \<Rightarrow> nat \<Rightarrow> btree \<Rightarrow> (rc \<times> btree) option" where
  "btree_write_overflow_data a bytes done dsz bt =
     (if done < dsz then do {
        let mx = psize bt - PAGEHDRSZ;
        (nxt, bt) \<leftarrow>
          (if dsz - done > mx then do {
             (n, bt) \<leftarrow> btree_new_page {P_OVERFLOW} bt;
             nm \<leftarrow> bt_mem bt n;
             bt \<leftarrow> page_update a (\<lambda>p. p\<lparr>pg_next := mp_pgno nm\<rparr>) bt;
             Some (n, bt)
           } else do {
             bt \<leftarrow> page_update a (\<lambda>p. p\<lparr>pg_next := 0\<rparr>) bt;
             Some (a, bt)
           });
        let sz = min (dsz - done) mx;
        if length bytes < done + sz then None
        else do {
          bt \<leftarrow> page_update a (\<lambda>p. p\<lparr>pg_odata := take sz (drop done bytes)\<rparr>) bt;
          btree_write_overflow_data nxt bytes (done + sz) dsz bt
        }
      } else Some (BT_SUCCESS, bt))"

declare btree_write_overflow_data.simps [code]

text \<open>
  \<open>btree_add_node\<close>.  \<open>data\<close> is the payload \<open>data->data\<close> points to and \<open>data->size\<close>:
  the bytes of the caller, or what \<open>NODEDATA\<close> of an existing node holds.
\<close>

definition btree_add_node ::
    "nat \<Rightarrow> nat \<Rightarrow> btval option \<Rightarrow> (payload \<times> nat) option \<Rightarrow> nat \<Rightarrow> nflag set \<Rightarrow> btree \<Rightarrow> (rc \<times> btree) option" where
  "btree_add_node a indx key data pgno flags bt = do {
     mp \<leftarrow> bt_mem bt a;
     let ksz = (case key of None \<Rightarrow> 0 | Some k \<Rightarrow> bv_size k);
     (node_size, ofp, flags, bt) \<leftarrow>
       (if IS_LEAF mp then do {
          (pl, dsz) \<leftarrow> data;
          if F_BIGDATA \<in> flags then Some (NODESIZE + ksz + 4, None, flags, bt)
          else if dsz \<ge> psize bt div BT_MINKEYS then do {
            (ov, bt) \<leftarrow> btree_new_page {P_OVERFLOW} bt;
            Some (NODESIZE + ksz + 4, Some ov, insert F_BIGDATA flags, bt)
          } else Some (NODESIZE + ksz + dsz, None, flags, bt)
        } else Some (NODESIZE + ksz, None, flags, bt));
     mp \<leftarrow> bt_mem bt a;
     if node_size + 2 > SIZELEFT mp then Some (BT_FAIL, bt)
     else if length (pg_nodes (mp_page mp)) < indx then None
     else do {
       kbytes \<leftarrow> (case key of
                   None \<Rightarrow> Some []
                 | Some k \<Rightarrow> if bv_size k \<le> length (bv_data k) then Some (take (bv_size k) (bv_data k)) else None);
       (np, pl) \<leftarrow>
         (if IS_LEAF mp then do {
            (pl, dsz) \<leftarrow> data;
            case ofp of
              Some ov \<Rightarrow> do { om \<leftarrow> bt_mem bt ov; Some (dsz mod 2 ^ 32, OvRef (mp_pgno om)) }
            | None \<Rightarrow>
                if F_BIGDATA \<in> flags then
                  (case pl of OvRef p \<Rightarrow> Some (dsz mod 2 ^ 32, OvRef p) | Inline d \<Rightarrow> None)
                else
                  (case pl of
                     OvRef p \<Rightarrow> None
                   | Inline d \<Rightarrow> if dsz \<le> length d then Some (dsz mod 2 ^ 32, Inline (take dsz d)) else None)
          } else Some (pgno, Inline []));
       let node = \<lparr>n_p = np, n_flags = flags, n_key = kbytes, n_payload = pl\<rparr>;
       bt \<leftarrow> page_update a (\<lambda>p. p\<lparr>pg_nodes := take indx (pg_nodes p) @ [node] @ drop indx (pg_nodes p),
                                   pg_upper := (pg_upper p + 65536 - node_size mod 65536) mod 65536,
                                   pg_lower := (pg_lower p + 2) mod 65536\<rparr>) bt;
       case ofp of
         None \<Rightarrow> Some (BT_SUCCESS, bt)
       | Some ov \<Rightarrow> do {
           (pl, dsz) \<leftarrow> data;
           case pl of
             OvRef p \<Rightarrow> None
           | Inline d \<Rightarrow> btree_write_overflow_data ov d 0 dsz bt
         }
     }
   }"

text \<open>The size \<open>btree_del_node\<close> takes a node to have.\<close>

definition del_size :: "mpage \<Rightarrow> node \<Rightarrow> nat" where
  "del_size mp node =
     NODESIZE + ksize node +
       (if IS_LEAF mp then (if F_BIGDATA \<in> n_flags node then 4 else n_p node) else 0)"

definition btree_del_node :: "nat \<Rightarrow> nat \<Rightarrow> btree \<Rightarrow> btree option" where
  "btree_del_node a indx bt = do {
     mp \<leftarrow> bt_mem bt a;
     node \<leftarrow> NODEPTR mp indx;
     page_update a (\<lambda>p. p\<lparr>pg_nodes := take indx (pg_nodes p) @ drop (indx + 1) (pg_nodes p),
                            pg_lower := (pg_lower p + 65536 - 2) mod 65536,
                            pg_upper := (pg_upper p + del_size mp node) mod 65536\<rparr>) bt
   }"

definition btree_update_key :: "nat \<Rightarrow> nat \<Rightarrow> btval \<Rightarrow> btree \<Rightarrow> (rc \<times> btree) option" where
  "btree_update_key a indx key bt = do {
     mp \<leftarrow> bt_mem bt a;
     node \<leftarrow> NODEPTR mp indx;
     if bv_size key \<noteq> ksize node \<and> bv_size key > ksize node \<and> SIZELEFT mp < bv_size key - ksize node
     then Some (BT_FAIL, bt)
     else if length (bv_data key) < bv_size key then None
     else do {
       bt \<leftarrow> page_update a (\<lambda>p. p\<lparr>pg_nodes := (pg_nodes p)[indx := node\<lparr>n_key := take (bv_size key) (bv_data key)\<rparr>],
                                   pg_upper := (pg_upper p + 65536 + ksize node - bv_size key mod 65536) mod 65536\<rparr>) bt;
       Some (BT_SUCCESS, bt)
     }
   }"

text \<open>
  \<open>btree_adjust_prefix\<close>, from node \<open>i\<close> on.  With \<open>delta > 0\<close> each key loses its
  first \<open>delta\<close> bytes; otherwise it gets in front the last \<open>-delta\<close> bytes of what
  \<open>src->prefix\<close> holds at that moment.  The new key is built in a \<open>btkey\<close>.
\<close>

definition adjusted_key :: "mpage \<Rightarrow> node \<Rightarrow> int \<Rightarrow> byte list option" where
  "adjusted_key src node delta =
     (if delta > 0 then
        (if int (ksize node) < delta then None else Some (drop (nat delta) (n_key node)))
      else if int (length (mp_prefix src)) + delta < 0 then None
      else if int (ksize node) - delta > int MAXKEYSIZE then None
      else Some (drop (nat (int (length (mp_prefix src)) + delta)) (mp_prefix src) @ n_key node))"

partial_function (option) adjust_prefix_loop :: "nat \<Rightarrow> int \<Rightarrow> nat \<Rightarrow> btree \<Rightarrow> (rc \<times> btree) option" where
  "adjust_prefix_loop a delta i bt = do {
     src \<leftarrow> bt_mem bt a;
     if i < NUMKEYS src then do {
       node \<leftarrow> NODEPTR src i;
       k \<leftarrow> adjusted_key src node delta;
       (rc, bt) \<leftarrow> btree_update_key a i (val k) bt;
       if rc \<noteq> BT_SUCCESS then Some (BT_FAIL, bt)
       else adjust_prefix_loop a delta (i + 1) bt
     } else Some (BT_SUCCESS, bt)
   }"

declare adjust_prefix_loop.simps [code]

definition btree_adjust_prefix :: "nat \<Rightarrow> int \<Rightarrow> btree \<Rightarrow> (rc \<times> btree) option" where
  "btree_adjust_prefix a delta bt = adjust_prefix_loop a delta 0 bt"

section \<open>Moving, merging and rebalancing\<close>

text \<open>The value \<open>NODEDATA\<close> and \<open>NODEDSZ\<close> of a node give for \<open>btree_add_node\<close>.\<close>

definition node_data :: "node \<Rightarrow> (payload \<times> nat) option" where
  "node_data nd = Some (n_payload nd, n_p nd)"

text \<open>A key held in a \<open>btkey\<close>, less the first \<open>n\<close> bytes (\<open>remove_prefix\<close>).\<close>

definition key_minus :: "byte list \<Rightarrow> nat \<Rightarrow> btval" where
  "key_minus k n = remove_prefix (val k) n"

text \<open>
  The lowest key below a branch page, as \<open>btree_move_node\<close> and \<open>btree_merge\<close> find
  it: the result of \<open>btree_search_page_root\<close> is not looked at.
\<close>

definition lowest_key :: "nat \<Rightarrow> btree \<Rightarrow> (byte list \<times> btree) option" where
  "lowest_key src bt = do {
     (rc, low, cu, bt) \<leftarrow> btree_search_page_root src None None False bt;
     if rc \<noteq> BT_SUCCESS then None
     else do { k \<leftarrow> expand_prefix low 0 bt; Some (k, bt) }
   }"

text \<open>
  ``Update the parent separators'' in \<open>btree_move_node\<close>: the separator of page \<open>a\<close> in
  its parent becomes the first key of \<open>a\<close>.
\<close>

definition update_parent_separator :: "nat \<Rightarrow> btree \<Rightarrow> (rc \<times> btree) option" where
  "update_parent_separator a bt = do {
     m \<leftarrow> bt_mem bt a;
     tmpkey \<leftarrow> expand_prefix a 0 bt;
     pa \<leftarrow> mp_parent m;
     pm \<leftarrow> bt_mem bt pa;
     btree_update_key pa (mp_parent_index m) (key_minus tmpkey (length (mp_prefix pm))) bt
   }"

text \<open>
  ``We can get a new page prefix here'': recompute the prefix of \<open>a\<close> and adjust its keys
  when the length changed from \<open>pfxlen\<close>.
\<close>

definition refresh_prefix :: "nat \<Rightarrow> nat \<Rightarrow> btree \<Rightarrow> (rc \<times> btree) option" where
  "refresh_prefix a pfxlen bt = do {
     bt \<leftarrow> find_common_prefix a bt;
     m \<leftarrow> bt_mem bt a;
     if length (mp_prefix m) \<noteq> pfxlen
     then btree_adjust_prefix a (int (length (mp_prefix m)) - int pfxlen) bt
     else Some (BT_SUCCESS, bt)
   }"

definition btree_move_node :: "nat \<Rightarrow> nat \<Rightarrow> nat \<Rightarrow> nat \<Rightarrow> btree \<Rightarrow> (rc \<times> btree) option" where
  "btree_move_node src0 srcindx dst0 dstindx bt = do {
     sm \<leftarrow> bt_mem bt src0;
     srcnode \<leftarrow> NODEPTR sm srcindx;
     bt \<leftarrow> find_common_prefix src0 bt;
     (r, bt) \<leftarrow> (if IS_BRANCH sm then do {
                    (r, bt) \<leftarrow> btree_get_mpage (n_p srcnode) bt;
                    case r of
                      None \<Rightarrow> Some (None, bt)
                    | Some c \<Rightarrow> do {
                        bt \<leftarrow> mp_update c (\<lambda>m. m\<lparr>mp_parent := Some src0, mp_parent_index := srcindx\<rparr>) bt;
                        bt \<leftarrow> find_common_prefix c bt;
                        cm \<leftarrow> bt_mem bt c;
                        Some (Some (Some (c, length (mp_prefix cm))), bt)
                      }
                  } else Some (Some None, bt));
     case r of
       None \<Rightarrow> Some (BT_FAIL, bt)
     | Some child \<Rightarrow> do {
         (src, bt) \<leftarrow> mpage_touch src0 bt;
         (dst, bt) \<leftarrow> mpage_touch dst0 bt;
         bt \<leftarrow> find_common_prefix dst bt;
         dm \<leftarrow> bt_mem bt dst;
         let tmpkey = common_prefix (n_key srcnode) (mp_prefix dm);
         (rc, bt) \<leftarrow> (if length tmpkey \<noteq> length (mp_prefix dm) then do {
                         (rc, bt) \<leftarrow> btree_adjust_prefix dst (int (length tmpkey) - int (length (mp_prefix dm))) bt;
                         if rc \<noteq> BT_SUCCESS then Some (BT_FAIL, bt)
                         else do { bt \<leftarrow> mp_update dst (\<lambda>m. m\<lparr>mp_prefix := tmpkey\<rparr>) bt; Some (BT_SUCCESS, bt) }
                       } else Some (BT_SUCCESS, bt));
         if rc \<noteq> BT_SUCCESS then Some (BT_FAIL, bt)
         else do {
           sm \<leftarrow> bt_mem bt src;
           (srckey, bt) \<leftarrow> (if srcindx = 0 \<and> IS_BRANCH sm then lowest_key src bt
                             else Some (n_key srcnode, bt));
           bt \<leftarrow> find_common_prefix src bt;
           sm \<leftarrow> bt_mem bt src;
           tmpkey \<leftarrow> concat_prefix MAXKEYSIZE (mp_prefix sm) srckey (length srckey);
           dm \<leftarrow> bt_mem bt dst;
           (rc, bt) \<leftarrow> btree_add_node dst dstindx (Some (key_minus tmpkey (length (mp_prefix dm))))
                          (node_data srcnode) (n_p srcnode) (n_flags srcnode) bt;
           if rc \<noteq> BT_SUCCESS then Some (rc, bt)
           else do {
             bt \<leftarrow> btree_del_node src srcindx bt;
             sm \<leftarrow> bt_mem bt src;
             (rc, bt) \<leftarrow> (if srcindx = 0 \<and> mp_parent_index sm \<noteq> 0 then update_parent_separator src bt
                             else Some (BT_SUCCESS, bt));
             if rc \<noteq> BT_SUCCESS then Some (BT_FAIL, bt)
             else do {
               (rc1, bt) \<leftarrow> (if srcindx = 0 \<and> IS_BRANCH sm
                               then btree_update_key src 0 \<lparr>bv_data = [], bv_size = 0\<rparr> bt
                               else Some (BT_SUCCESS, bt));
               dm \<leftarrow> bt_mem bt dst;
               (rc, bt) \<leftarrow> (if dstindx = 0 \<and> mp_parent_index dm \<noteq> 0 then update_parent_separator dst bt
                               else Some (BT_SUCCESS, bt));
               if rc \<noteq> BT_SUCCESS then Some (BT_FAIL, bt)
               else do {
                 (rc2, bt) \<leftarrow> (if dstindx = 0 \<and> IS_BRANCH dm
                                 then btree_update_key dst 0 \<lparr>bv_data = [], bv_size = 0\<rparr> bt
                                 else Some (BT_SUCCESS, bt));
                 sm \<leftarrow> bt_mem bt src;
                 (rc, bt) \<leftarrow> refresh_prefix src (length (mp_prefix sm)) bt;
                 if rc \<noteq> BT_SUCCESS then Some (BT_FAIL, bt)
                 else do {
                   dm \<leftarrow> bt_mem bt dst;
                   (rc, bt) \<leftarrow> refresh_prefix dst (length (mp_prefix dm)) bt;
                   if rc \<noteq> BT_SUCCESS then Some (BT_FAIL, bt)
                   else if IS_BRANCH dm then do {
                     (c, mp_pfxlen) \<leftarrow> child;
                     bt \<leftarrow> mp_update c (\<lambda>m. m\<lparr>mp_parent := Some dst, mp_parent_index := dstindx\<rparr>) bt;
                     bt \<leftarrow> find_common_prefix c bt;
                     cm \<leftarrow> bt_mem bt c;
                     if length (mp_prefix cm) \<noteq> mp_pfxlen then do {
                       (c, bt) \<leftarrow> mpage_touch c bt;
                       cm \<leftarrow> bt_mem bt c;
                       (rc, bt) \<leftarrow> btree_adjust_prefix c (int (length (mp_prefix cm)) - int mp_pfxlen) bt;
                       if rc \<noteq> BT_SUCCESS then Some (BT_FAIL, bt) else Some (BT_SUCCESS, bt)
                     } else Some (BT_SUCCESS, bt)
                   } else Some (BT_SUCCESS, bt)
                 }
               }
             }
           }
         }
       }
   }"

text \<open>The loop of \<open>btree_merge\<close> that moves all nodes from \<open>src\<close> to \<open>dst\<close>.\<close>

partial_function (option) merge_loop :: "nat \<Rightarrow> nat \<Rightarrow> nat \<Rightarrow> btree \<Rightarrow> (rc \<times> btree) option" where
  "merge_loop src dst i bt = do {
     sm \<leftarrow> bt_mem bt src;
     if i < NUMKEYS sm then do {
       srcnode \<leftarrow> NODEPTR sm i;
       (tmpkey, bt) \<leftarrow> (if i = 0 \<and> IS_BRANCH sm then lowest_key src bt
                         else do { k \<leftarrow> expand_prefix src i bt; Some (k, bt) });
       dm \<leftarrow> bt_mem bt dst;
       (rc, bt) \<leftarrow> btree_add_node dst (NUMKEYS dm) (Some (key_minus tmpkey (length (mp_prefix dm))))
                      (node_data srcnode) (n_p srcnode) (n_flags srcnode) bt;
       if rc \<noteq> BT_SUCCESS then Some (rc, bt)
       else merge_loop src dst (i + 1) bt
     } else Some (BT_SUCCESS, bt)
   }"

declare merge_loop.simps [code]

text \<open>
  \<open>btree_merge\<close> up to its last statement, \<open>return btree_rebalance(bt, src->parent)\<close>:
  the result holds the page to rebalance.
\<close>

definition btree_merge_nodes :: "nat \<Rightarrow> nat \<Rightarrow> btree \<Rightarrow> (rc \<times> nat \<times> btree) option" where
  "btree_merge_nodes src0 dst0 bt = do {
     (src, bt) \<leftarrow> mpage_touch src0 bt;
     (dst, bt) \<leftarrow> mpage_touch dst0 bt;
     bt \<leftarrow> find_common_prefix src bt;
     bt \<leftarrow> find_common_prefix dst bt;
     sm \<leftarrow> bt_mem bt src;
     dm \<leftarrow> bt_mem bt dst;
     let dstpfx = common_prefix (mp_prefix sm) (mp_prefix dm);
     (rc, bt) \<leftarrow> (if length dstpfx \<noteq> length (mp_prefix dm) then do {
                     (rc, bt) \<leftarrow> btree_adjust_prefix dst (int (length dstpfx) - int (length (mp_prefix dm))) bt;
                     if rc \<noteq> BT_SUCCESS then Some (BT_FAIL, bt)
                     else do { bt \<leftarrow> mp_update dst (\<lambda>m. m\<lparr>mp_prefix := dstpfx\<rparr>) bt; Some (BT_SUCCESS, bt) }
                   } else Some (BT_SUCCESS, bt));
     if rc \<noteq> BT_SUCCESS then Some (BT_FAIL, src, bt)
     else do {
       (rc, bt) \<leftarrow> merge_loop src dst 0 bt;
       if rc \<noteq> BT_SUCCESS then Some (rc, src, bt)
       else do {
         sm \<leftarrow> bt_mem bt src;
         pa \<leftarrow> mp_parent sm;
         bt \<leftarrow> btree_del_node pa (mp_parent_index sm) bt;
         (rc, bt) \<leftarrow> (if mp_parent_index sm = 0 then do {
                         (rc, bt) \<leftarrow> btree_update_key pa 0 \<lparr>bv_data = [], bv_size = 0\<rparr> bt;
                         if rc \<noteq> BT_SUCCESS then Some (BT_FAIL, bt)
                         else do { bt \<leftarrow> find_common_prefix src bt; Some (BT_SUCCESS, bt) }
                       } else Some (BT_SUCCESS, bt));
         if rc \<noteq> BT_SUCCESS then Some (BT_FAIL, src, bt)
         else do {
           sm \<leftarrow> bt_mem bt src;
           let bt = (if IS_LEAF sm then meta_update (\<lambda>m. m\<lparr>m_leaf_pages := u32_dec (m_leaf_pages m)\<rparr>) bt
                     else meta_update (\<lambda>m. m\<lparr>m_branch_pages := u32_dec (m_branch_pages m)\<rparr>) bt);
           Some (BT_SUCCESS, pa, bt)
         }
       }
     }
   }"

definition FILL_THRESHOLD :: nat where "FILL_THRESHOLD = 250"

text \<open>\<open>btree_rebalance\<close> of a page without parent.\<close>

definition rebalance_root :: "nat \<Rightarrow> btree \<Rightarrow> (rc \<times> btree) option" where
  "rebalance_root a bt = do {
     mp \<leftarrow> bt_mem bt a;
     h \<leftarrow> bt_txn bt;
     if NUMKEYS mp = 0 then do {
       bt \<leftarrow> txn_update h (\<lambda>t. t\<lparr>t_root := P_INVALID\<rparr>) bt;
       Some (BT_SUCCESS, meta_update (\<lambda>m. m\<lparr>m_depth := u32_dec (m_depth m),
                                               m_leaf_pages := u32_dec (m_leaf_pages m)\<rparr>) bt)
     } else if IS_BRANCH mp \<and> NUMKEYS mp = 1 then do {
       node \<leftarrow> NODEPTR mp 0;
       bt \<leftarrow> txn_update h (\<lambda>t. t\<lparr>t_root := n_p node\<rparr>) bt;
       (r, bt) \<leftarrow> btree_get_mpage (n_p node) bt;
       case r of
         None \<Rightarrow> Some (BT_FAIL, bt)
       | Some root \<Rightarrow> do {
           bt \<leftarrow> mp_update root (\<lambda>m. m\<lparr>mp_parent := None\<rparr>) bt;
           Some (BT_SUCCESS, meta_update (\<lambda>m. m\<lparr>m_depth := u32_dec (m_depth m),
                                                   m_branch_pages := u32_dec (m_branch_pages m)\<rparr>) bt)
         }
     } else Some (BT_SUCCESS, bt)
   }"

partial_function (option) btree_rebalance :: "nat \<Rightarrow> btree \<Rightarrow> (rc \<times> btree) option" where
  "btree_rebalance a bt = do {
     mp \<leftarrow> bt_mem bt a;
     if PAGEFILL bt mp \<ge> FILL_THRESHOLD then Some (BT_SUCCESS, bt)
     else
       (case mp_parent mp of
          None \<Rightarrow> rebalance_root a bt
        | Some parent \<Rightarrow> do {
            pm \<leftarrow> bt_mem bt parent;
            let ni = (if mp_parent_index mp = 0 then mp_parent_index mp + 1 else mp_parent_index mp - 1);
            node \<leftarrow> NODEPTR pm ni;
            (r, bt) \<leftarrow> btree_get_mpage (n_p node) bt;
            case r of
              None \<Rightarrow> Some (BT_FAIL, bt)
            | Some neighbor \<Rightarrow> do {
                bt \<leftarrow> mp_update neighbor (\<lambda>m. m\<lparr>mp_parent_index := ni, mp_parent := Some parent\<rparr>) bt;
                nm \<leftarrow> bt_mem bt neighbor;
                mp \<leftarrow> bt_mem bt a;
                let si = (if mp_parent_index mp = 0 then 0 else NUMKEYS nm - 1);
                let di = (if mp_parent_index mp = 0 then NUMKEYS mp else 0);
                if PAGEFILL bt nm \<ge> FILL_THRESHOLD \<and> NUMKEYS nm \<ge> 2
                then btree_move_node neighbor si a di bt
                else do {
                  (rc, pa, bt) \<leftarrow> (if mp_parent_index mp = 0 then btree_merge_nodes neighbor a bt
                                     else btree_merge_nodes a neighbor bt);
                  if rc \<noteq> BT_SUCCESS then Some (rc, bt) else btree_rebalance pa bt
                }
              }
          })
   }"

declare btree_rebalance.simps [code]

definition btree_merge :: "nat \<Rightarrow> nat \<Rightarrow> btree \<Rightarrow> (rc \<times> btree) option" where
  "btree_merge src dst bt = do {
     (rc, pa, bt) \<leftarrow> btree_merge_nodes src dst bt;
     if rc \<noteq> BT_SUCCESS then Some (rc, bt) else btree_rebalance pa bt
   }"

section \<open>Split, put and delete\<close>

text \<open>
  The variables of the redistribution loop of \<open>btree_split\<close>: \<open>sl_pgno\<close> and
  \<open>sl_rdata\<close> keep their value from one round to the next, \<open>sl_rc\<close> is the result of
  the last \<open>btree_add_node\<close>, \<open>sl_mp\<close> and \<open>sl_newindx\<close> are \<open>*mpp\<close> and \<open>*newindxp\<close>.
\<close>

record split_vars =
  sl_i :: nat
  sl_j :: nat
  sl_ins_new :: bool
  sl_pgno :: nat
  sl_rdata :: "(payload \<times> nat) option"
  sl_rc :: rc
  sl_mp :: nat
  sl_newindx :: nat

partial_function (option) split_loop ::
    "page \<Rightarrow> nat \<Rightarrow> nat \<Rightarrow> nat \<Rightarrow> nat \<Rightarrow> nat \<Rightarrow> nat \<Rightarrow> btval \<Rightarrow> (payload \<times> nat) option \<Rightarrow> nat \<Rightarrow>
     split_vars \<Rightarrow> btree \<Rightarrow> (split_vars \<times> btree) option" where
  "split_loop copy split_indx newindx mp pright left_pfx_diff right_pfx_diff newkey newdata newpgno v bt =
     (if sl_i v \<le> NUMKEYSP copy then do {
        let j = (if sl_i v < split_indx then sl_j v
                 else if sl_i v = split_indx then (if sl_i v = newindx \<and> sl_ins_new v then 1 else 0)
                 else sl_j v);
        let p = (if sl_i v < split_indx then mp else pright);
        let pfx_diff = (if sl_i v < split_indx then left_pfx_diff else right_pfx_diff);
        pm \<leftarrow> bt_mem bt p;
        if sl_i v = newindx \<and> \<not> sl_ins_new v then do {
          let v = v\<lparr>sl_rdata := (if IS_LEAFP copy then newdata else sl_rdata v),
                     sl_pgno := (if IS_LEAFP copy then sl_pgno v else newpgno),
                     sl_ins_new := True, sl_newindx := j, sl_mp := p\<rparr>;
          let rkey = (if \<not> IS_LEAFP copy \<and> j = 0 then newkey\<lparr>bv_size := 0\<rparr>
                      else remove_prefix newkey (length (mp_prefix pm)));
          (rc, bt) \<leftarrow> btree_add_node p j (Some rkey) (sl_rdata v) (sl_pgno v) {} bt;
          split_loop copy split_indx newindx mp pright left_pfx_diff right_pfx_diff newkey newdata newpgno
            (v\<lparr>sl_j := j + 1, sl_rc := rc\<rparr>) bt
        } else if sl_i v = NUMKEYSP copy then Some (v\<lparr>sl_j := j\<rparr>, bt)
        else do {
          node \<leftarrow> NODEPTRP copy (sl_i v);
          let v = v\<lparr>sl_rdata := (if IS_LEAFP copy then node_data node else sl_rdata v),
                     sl_pgno := (if IS_LEAFP copy then sl_pgno v else n_p node)\<rparr>;
          let rkey = (if \<not> IS_LEAFP copy \<and> j = 0 then (NODEKEY node)\<lparr>bv_size := 0\<rparr>
                      else remove_prefix (NODEKEY node) pfx_diff);
          (rc, bt) \<leftarrow> btree_add_node p j (Some rkey) (sl_rdata v) (sl_pgno v) (n_flags node) bt;
          split_loop copy split_indx newindx mp pright left_pfx_diff right_pfx_diff newkey newdata newpgno
            (v\<lparr>sl_i := sl_i v + 1, sl_j := j + 1, sl_rc := rc\<rparr>) bt
        }
      } else Some (v, bt))"

declare split_loop.simps [code]

text \<open>
  \<open>btree_split\<close>.  The result is the return code, \<open>*mpp\<close> and \<open>*newindxp\<close>.  In the
  recursive call \<open>mpp\<close> and \<open>newindxp\<close> point to the parent fields of the right page,
  which are written back.
\<close>

partial_function (option) btree_split ::
    "nat \<Rightarrow> nat \<Rightarrow> btval \<Rightarrow> (payload \<times> nat) option \<Rightarrow> nat \<Rightarrow> btree \<Rightarrow> (rc \<times> nat \<times> nat \<times> btree) option" where
  "btree_split mp newindxp newkey newdata newpgno bt = do {
     let newindx = newindxp mod 65536;
     m \<leftarrow> bt_mem bt mp;
     let orig_pfx_len = length (mp_prefix m);
     (rc, bt) \<leftarrow> (case mp_parent m of
                     Some pa \<Rightarrow> Some (BT_SUCCESS, bt)
                   | None \<Rightarrow> do {
                       (pa, bt) \<leftarrow> btree_new_page {P_BRANCH} bt;
                       bt \<leftarrow> mp_update mp (\<lambda>m. m\<lparr>mp_parent := Some pa, mp_parent_index := 0\<rparr>) bt;
                       pm \<leftarrow> bt_mem bt pa;
                       h \<leftarrow> bt_txn bt;
                       bt \<leftarrow> txn_update h (\<lambda>t. t\<lparr>t_root := mp_pgno pm\<rparr>) bt;
                       let bt = meta_update (\<lambda>m. m\<lparr>m_depth := u32_inc (m_depth m)\<rparr>) bt;
                       btree_add_node pa 0 None None (mp_pgno m) {} bt
                     });
     if rc \<noteq> BT_SUCCESS then Some (BT_FAIL, mp, newindxp, bt)
     else do {
       m \<leftarrow> bt_mem bt mp;
       (pright, bt) \<leftarrow> btree_new_page (pg_flags (mp_page m)) bt;
       bt \<leftarrow> mp_update pright (\<lambda>r. r\<lparr>mp_parent := mp_parent m, mp_parent_index := mp_parent_index m + 1\<rparr>) bt;
       let copy = mp_page m;
       bt \<leftarrow> page_update mp (\<lambda>p. p\<lparr>pg_nodes := [], pg_next := 0, pg_odata := [],
                                     pg_lower := PAGEHDRSZ, pg_upper := psize bt mod 65536\<rparr>) bt;
       let split_indx = NUMKEYSP copy div 2 + 1;
       sepkey \<leftarrow> btree_split_sepkey copy newindx newkey (length (mp_prefix m));
       tmpkey \<leftarrow> concat_prefix MAXKEYSIZE (mp_prefix m) (bv_data sepkey) (bv_size sepkey);
       rm \<leftarrow> bt_mem bt pright;
       rpa \<leftarrow> mp_parent rm;
       rpm \<leftarrow> bt_mem bt rpa;
       (rc, bt) \<leftarrow>
         (if SIZELEFT rpm < bt_branch_size (Some (val tmpkey)) then do {
            (rc, pa', pi', bt) \<leftarrow> btree_split rpa (mp_parent_index rm) (val tmpkey) None (mp_pgno rm) bt;
            bt \<leftarrow> mp_update pright (\<lambda>r. r\<lparr>mp_parent := Some pa', mp_parent_index := pi'\<rparr>) bt;
            m \<leftarrow> bt_mem bt mp;
            mpa \<leftarrow> mp_parent m;
            mpm \<leftarrow> bt_mem bt mpa;
            bt \<leftarrow> (if pa' \<noteq> mpa \<and> mp_parent_index m \<ge> NUMKEYS mpm
                   then mp_update mp (\<lambda>m. m\<lparr>mp_parent := Some pa', mp_parent_index := pi' - 1\<rparr>) bt
                   else Some bt);
            Some (rc, bt)
          } else
            btree_add_node rpa (mp_parent_index rm)
              (Some (key_minus tmpkey (length (mp_prefix rpm)))) None (mp_pgno rm) {} bt);
       if rc \<noteq> BT_SUCCESS then Some (BT_FAIL, mp, newindxp, bt)
       else do {
         bt \<leftarrow> find_common_prefix pright bt;
         rm \<leftarrow> bt_mem bt pright;
         let right_pfx_diff = size_sub (length (mp_prefix rm)) orig_pfx_len;
         bt \<leftarrow> find_common_prefix mp bt;
         m \<leftarrow> bt_mem bt mp;
         let left_pfx_diff = size_sub (length (mp_prefix m)) orig_pfx_len;
         (v, bt) \<leftarrow> split_loop copy split_indx newindx mp pright left_pfx_diff right_pfx_diff
                      newkey newdata newpgno
                      \<lparr>sl_i = 0, sl_j = 0, sl_ins_new = False, sl_pgno = 0, sl_rdata = None,
                        sl_rc = BT_SUCCESS, sl_mp = mp, sl_newindx = newindxp\<rparr> bt;
         Some (sl_rc v, sl_mp v, sl_newindx v, bt)
       }
     }
   }"

declare btree_split.simps [code]

text \<open>
  \<open>btree_txn_put\<close> and \<open>btree_txn_del\<close>, on the one database of the state.  \<open>wdata\<close>
  says whether \<open>btree_txn_del\<close> is to hand out the data it deletes.
\<close>

definition txn_finish :: "bool \<Rightarrow> nat \<Rightarrow> rc \<Rightarrow> btree \<Rightarrow> (rc \<times> btree) option" where
  "txn_finish close_txn h rc bt = do {
     (rc, bt) \<leftarrow> (if close_txn then
                     (if rc = BT_SUCCESS then btree_txn_commit h bt
                      else do { bt \<leftarrow> btree_txn_abort (Some h) bt; Some (rc, bt) })
                   else Some (rc, bt));
     bt \<leftarrow> mpage_prune bt;
     Some (rc, bt)
   }"

definition btree_txn_put :: "nat option \<Rightarrow> btval \<Rightarrow> btval \<Rightarrow> btree \<Rightarrow> (rc \<times> btree) option" where
  "btree_txn_put txn key data bt =
     (if (case txn of None \<Rightarrow> False
          | Some h \<Rightarrow> (case bt_txns bt h of None \<Rightarrow> False | Some t \<Rightarrow> BT_TXN_RDONLY \<in> t_flags t))
      then Some (BT_FAIL, set_errno EINVAL bt)
      else if bv_size key = 0 \<or> bv_size key > MAXKEYSIZE then Some (BT_FAIL, set_errno EINVAL bt)
      else do {
        (ho, bt) \<leftarrow> (case txn of None \<Rightarrow> btree_txn_begin False bt | Some h \<Rightarrow> Some (Some h, bt));
        case ho of
          None \<Rightarrow> Some (BT_FAIL, bt)
        | Some h \<Rightarrow> do {
            t \<leftarrow> bt_txns bt h;
            (rc, mp, cu, bt) \<leftarrow> btree_search_page (Some h) (Some key) None True bt;
            r \<leftarrow> (if rc = BT_SUCCESS then do {
                    m \<leftarrow> bt_mem bt mp;
                    r \<leftarrow> btree_search_node m key;
                    bt \<leftarrow> (case r of Some (True, ki) \<Rightarrow> btree_del_node mp ki bt | _ \<Rightarrow> Some bt);
                    m \<leftarrow> bt_mem bt mp;
                    Some (Some (mp, (case r of None \<Rightarrow> NUMKEYS m | Some (exact, ki) \<Rightarrow> ki), bt))
                  } else if bt_errno bt = ENOENT then do {
                    (mp, bt) \<leftarrow> btree_new_page {P_LEAF} bt;
                    m \<leftarrow> bt_mem bt mp;
                    bt \<leftarrow> txn_update h (\<lambda>t. t\<lparr>t_root := mp_pgno m\<rparr>) bt;
                    Some (Some (mp, 0, meta_update (\<lambda>m. m\<lparr>m_depth := u32_inc (m_depth m)\<rparr>) bt))
                  } else Some None);
            case r of
              None \<Rightarrow> txn_finish (txn = None) h rc bt
            | Some (mp, ki, bt) \<Rightarrow> do {
                m \<leftarrow> bt_mem bt mp;
                (rc, bt) \<leftarrow>
                  (if SIZELEFT m < bt_leaf_size bt key data then do {
                     (rc, mp, ki, bt) \<leftarrow> btree_split mp ki key (Some (Inline (bv_data data), bv_size data)) P_INVALID bt;
                     Some (rc, bt)
                   } else
                     btree_add_node mp ki (Some (remove_prefix key (length (mp_prefix m))))
                       (Some (Inline (bv_data data), bv_size data)) 0 {} bt);
                bt \<leftarrow> (if rc \<noteq> BT_SUCCESS then txn_update h (\<lambda>t. t\<lparr>t_flags := insert BT_TXN_ERROR (t_flags t)\<rparr>) bt
                       else Some (meta_update (\<lambda>m. m\<lparr>m_entries := u64_inc (m_entries m)\<rparr>) bt));
                txn_finish (txn = None) h rc bt
              }
          }
      })"

definition btree_txn_del :: "nat option \<Rightarrow> btval \<Rightarrow> bool \<Rightarrow> btree \<Rightarrow> (rc \<times> btval option \<times> btree) option" where
  "btree_txn_del txn key wdata bt =
     (if (case txn of None \<Rightarrow> False
          | Some h \<Rightarrow> (case bt_txns bt h of None \<Rightarrow> False | Some t \<Rightarrow> BT_TXN_RDONLY \<in> t_flags t))
      then Some (BT_FAIL, None, set_errno EINVAL bt)
      else if bv_size key = 0 \<or> bv_size key > MAXKEYSIZE then Some (BT_FAIL, None, set_errno EINVAL bt)
      else do {
        (ho, bt) \<leftarrow> (case txn of None \<Rightarrow> btree_txn_begin False bt | Some h \<Rightarrow> Some (Some h, bt));
        case ho of
          None \<Rightarrow> Some (BT_FAIL, None, bt)
        | Some h \<Rightarrow> do {
            (rc, mp, cu, bt) \<leftarrow> btree_search_page (Some h) (Some key) None True bt;
            (rc, d, bt) \<leftarrow>
              (if rc \<noteq> BT_SUCCESS then Some (rc, None, bt)
               else do {
                 m \<leftarrow> bt_mem bt mp;
                 r \<leftarrow> btree_search_node m key;
                 case r of
                   Some (True, ki) \<Rightarrow> do {
                     leaf \<leftarrow> NODEPTR m ki;
                     (rc, d, bt) \<leftarrow> (if wdata then do {
                                       (rc, d, bt) \<leftarrow> btree_read_data None leaf bt;
                                       Some (rc, Some d, bt)
                                     } else Some (BT_SUCCESS, None, bt));
                     if rc \<noteq> BT_SUCCESS then Some (rc, d, bt)
                     else do {
                       bt \<leftarrow> btree_del_node mp ki bt;
                       let bt = meta_update (\<lambda>m. m\<lparr>m_entries := u64_dec (m_entries m)\<rparr>) bt;
                       (rc, bt) \<leftarrow> btree_rebalance mp bt;
                       bt \<leftarrow> (if rc \<noteq> BT_SUCCESS
                              then txn_update h (\<lambda>t. t\<lparr>t_flags := insert BT_TXN_ERROR (t_flags t)\<rparr>) bt
                              else Some bt);
                       Some (rc, d, bt)
                     }
                   }
                 | _ \<Rightarrow> Some (BT_FAIL, None, set_errno ENOENT bt)
               });
            (rc, bt) \<leftarrow> txn_finish (txn = None) h rc bt;
            Some (rc, d, bt)
          }
      })"

subsection \<open>Example inputs\<close>



text \<open>A database that was just created: the file holds the header page only.\<close>

definition head_page :: page where
  "head_page = \<lparr>pg_pgno = 0, pg_flags = {P_HEAD}, pg_lower = 0, pg_upper = 0, pg_nodes = [],
     pg_next = 0, pg_odata = [], pg_meta = zero_meta\<rparr>"

definition fresh_bt :: btree where
  "fresh_bt = \<lparr>bt_file = [head_page], bt_tail = 0, bt_io_ok = True, bt_flock_ok = True,
     bt_clock = 0, bt_errno = ENONE, bt_flags = {},
     bt_head = \<lparr>h_magic = 3017520091, h_version = 4, h_flags = 0, h_psize = 4096\<rparr>,
     bt_meta = zero_meta\<lparr>m_root := P_INVALID\<rparr>,
     bt_mem = (\<lambda>_. None), bt_next_addr = 1, bt_page_cache = [], bt_lru_queue = [],
     bt_txns = (\<lambda>_. None), bt_txn = None, bt_ref = 1, bt_cache_size = 0,
     bt_max_cache = 1024, bt_size = 0\<rparr>"

text \<open>The same database with a write transaction begun at address 1.\<close>

definition fresh_txn :: btree_txn where
  "fresh_txn = \<lparr>t_root = P_INVALID, t_next_pgno = 1, t_dirty_queue = [], t_flags = {}\<rparr>"

definition fresh_bt_txn :: btree where
  "fresh_bt_txn = fresh_bt\<lparr>bt_next_addr := 2, bt_txns := (\<lambda>_. None)(1 \<mapsto> fresh_txn),
     bt_txn := Some 1, bt_ref := 2\<rparr>"

subsection \<open>Notions used in the properties\<close>

text \<open>Two states with the same file, the same size on record and the same meta data.\<close>

definition same_disk :: "btree \<Rightarrow> btree \<Rightarrow> bool" where
  "same_disk bt bt' \<longleftrightarrow> bt_file bt' = bt_file bt \<and> bt_tail bt' = bt_tail bt \<and>
     bt_meta bt' = bt_meta bt \<and> bt_size bt' = bt_size bt \<and> bt_head bt' = bt_head bt"

text \<open>What a caller sees of a result: the return code and \<open>errno\<close>.\<close>

definition rc_errno :: "(rc \<times> btree) option \<Rightarrow> (rc \<times> errno) option" where
  "rc_errno r = map_option (\<lambda>(rc, bt). (rc, bt_errno bt)) r"

definition rc_errno3 :: "(rc \<times> 'a \<times> btree) option \<Rightarrow> (rc \<times> errno) option" where
  "rc_errno3 r = map_option (\<lambda>(rc, x, bt). (rc, bt_errno bt)) r"

text \<open>The state after an operation that succeeded.\<close>

definition after :: "(rc \<times> btree) option \<Rightarrow> btree option" where
  "after r = (case r of Some (BT_SUCCESS, bt) \<Rightarrow> Some bt | _ \<Rightarrow> None)"

text \<open>The meta pages of the file: page number, root and \<open>prev_meta\<close> of each.\<close>

definition meta_pages :: "btree \<Rightarrow> (nat \<times> nat \<times> nat) list" where
  "meta_pages bt =
     map (\<lambda>p. (pg_pgno p, m_root (pg_meta p), m_prev_meta (pg_meta p)))
       (filter (\<lambda>p. P_META \<in> pg_flags p) (bt_file bt))"

text \<open>The same database with a read-only transaction begun at address 1.\<close>

definition fresh_bt_ro :: btree where
  "fresh_bt_ro = fresh_bt\<lparr>bt_next_addr := 2,
     bt_txns := (\<lambda>_. None)(1 \<mapsto> fresh_txn\<lparr>t_flags := {BT_TXN_RDONLY}\<rparr>), bt_ref := 2\<rparr>"

text \<open>The key \<open>a\<close> and the value \<open>1\<close>; putting them once and twice into the new database.\<close>

definition key_a :: btval where "key_a = val [97]"
definition val_1 :: btval where "val_1 = val [49]"

definition put_once :: "btree option" where
  "put_once = after (btree_txn_put None key_a val_1 fresh_bt)"

definition put_twice :: "btree option" where
  "put_twice = Option.bind put_once (\<lambda>bt. after (btree_txn_put None key_a val_1 bt))"









text \<open>
  The new database after \<open>put\<close> of the key \<open>b\<close> with empty data, and \<open>get\<close> of the key
  \<open>ab\<close> on it.
\<close>

definition key_b :: btval where "key_b = val [98]"
definition key_ab :: btval where "key_ab = val [97, 98]"

definition put_b :: "(rc \<times> btree) option" where
  "put_b = btree_txn_put None key_b (val []) fresh_bt"

definition get_ab :: "(rc \<times> errno) option" where
  "get_ab = Option.bind (after put_b) (\<lambda>bt. rc_errno3 (btree_txn_get None key_ab bt))"

text \<open>The keys of the leaf pages of the file, page by page.\<close>

definition leaf_keys :: "btree \<Rightarrow> byte list list list" where
  "leaf_keys bt = map (\<lambda>p. map n_key (pg_nodes p)) (filter IS_LEAFP (bt_file bt))"


text \<open>
  What the leaf pages of the file record of the data of their nodes: the flags, the
  data size and the overflow page, if the node names one.
\<close>

definition leaf_payloads :: "btree \<Rightarrow> (nflag set \<times> nat \<times> nat option) list" where
  "leaf_payloads bt =
     concat (map (\<lambda>p. map (\<lambda>nd. (n_flags nd, n_p nd,
                                   case n_payload nd of Inline d \<Rightarrow> None | OvRef pg \<Rightarrow> Some pg))
                           (pg_nodes p))
                 (filter IS_LEAFP (bt_file bt)))"

text \<open>The new database after \<open>put\<close> of the key \<open>a\<close> with \<open>n\<close> bytes of data.\<close>

definition put_data :: "nat \<Rightarrow> btree option" where
  "put_data n = after (btree_txn_put None key_a (val (replicate n 7)) fresh_bt)"




section \<open>Properties\<close>

subsection \<open>Comparison and separators\<close>

lemma memcmp_loop_append [simp]: "memcmp_loop (p @ xs) (p @ ys) = memcmp_loop xs ys"
  by (induction p) auto

lemma memcmp_loop_same [simp]: "memcmp_loop a a = 0"
  by (induction a) auto

lemma memcmp_loop_zero:
  "length a = length b \<Longrightarrow> memcmp_loop a b = 0 \<longleftrightarrow> a = b"
  by (induction a b rule: list_induct2) auto

lemma btree_cmp_prefix_less:
  "ys \<noteq> [] \<Longrightarrow> btree_cmp (val a) (val (a @ ys)) = Some (- 1)"
  by (simp add: btree_cmp_def val_def memncmp_def memcmp_def)

lemma btree_cmp_prefix_greater:
  "ys \<noteq> [] \<Longrightarrow> btree_cmp (val (a @ ys)) (val a) = Some 1"
  by (simp add: btree_cmp_def val_def memncmp_def memcmp_def)

lemma btree_cmp_equal: "btree_cmp (val a) (val a) = Some 0"
  by (simp add: btree_cmp_def val_def memncmp_def memcmp_def)

lemma btree_cmp_differ:
  "x \<noteq> y \<Longrightarrow> length xs \<le> length ys \<Longrightarrow>
   btree_cmp (val (p @ x # xs)) (val (p @ y # ys)) = Some (if x < y then - 1 else 1)"
  by (simp add: btree_cmp_def val_def memncmp_def memcmp_def)

lemma cmp_cases:
  obtains (eq) "a = b" | (lt) ys where "ys \<noteq> []" "b = a @ ys" | (gt) ys where "ys \<noteq> []" "a = b @ ys"
  | (df) p x y xs zs where "x \<noteq> y" "a = p @ x # xs" "b = p @ y # zs"
proof (cases "a = b")
  case True then show ?thesis by (rule eq)
next
  case ne: False
  show ?thesis
  proof (cases "prefix a b")
    case True
    then obtain ys where "b = a @ ys" by (auto simp: prefix_def)
    with ne show ?thesis by (intro lt [of ys]) auto
  next
    case nab: False
    show ?thesis
    proof (cases "prefix b a")
      case True
      then obtain ys where "a = b @ ys" by (auto simp: prefix_def)
      with ne show ?thesis by (intro gt [of ys]) auto
    next
      case False
      with nab have "a \<parallel> b" by (simp add: parallel_def)
      from parallel_decomp [OF this] show ?thesis using df by blast
    qed
  qed
qed

text \<open>
  \<open>btree_cmp\<close> is undefined exactly when the first key is the longer one and differs
  from the second before the second ends: then the last \<open>memcmp\<close> of \<open>memncmp\<close> is
  asked for more bytes than the second key holds.
\<close>

lemma btree_cmp_undefined:
  "btree_cmp (val a) (val b) = None \<longleftrightarrow> length b < length a \<and> take (length b) a \<noteq> b"
proof (cases "length b < length a")
  case True
  then have "memcmp_loop (take (length b) a) b = 0 \<longleftrightarrow> take (length b) a = b"
    by (intro memcmp_loop_zero) simp
  then show ?thesis using True
    by (simp add: btree_cmp_def val_def memncmp_def memcmp_def)
next
  case False
  then show ?thesis
    by (simp add: btree_cmp_def val_def memncmp_def memcmp_def)
qed

text \<open>
  Claim C5.  \<open>btree_cmp\<close> on the keys \<open>7 200 3\<close> and \<open>7 9\<close>: the second is no prefix of
  the first and the first differing bytes are 200 and 9, so the claim asks for a positive
  result.  \<open>memncmp\<close> finds the first two bytes different and then calls \<open>memcmp\<close> with
  the length of the first key, three bytes, on the second key of two bytes: the result is
  undefined.
\<close>

theorem btree_cmp_reads_past_shorter_key:
  "btree_cmp (val [7, 200, 3]) (val [7, 9]) = None"
  by code_simp


text \<open>Where \<open>btree_cmp\<close> is defined, a negative result is the byte order.\<close>

lemma bytes_less_append [simp]: "bytes_less (p @ xs) (p @ ys) = bytes_less xs ys"
  by (induction p) auto

lemma bytes_less_btree_cmp:
  assumes "btree_cmp (val a) (val b) = Some r"
  shows "r < 0 \<longleftrightarrow> bytes_less a b"
proof (cases a b rule: cmp_cases)
  case eq
  then show ?thesis using assms bytes_less_append [of a "[]" "[]"] by (simp add: btree_cmp_equal)
next
  case (lt ys)
  then obtain c cs where "ys = c # cs" by (cases ys) auto
  then show ?thesis using assms lt bytes_less_append [of a "[]" ys] by (simp add: btree_cmp_prefix_less)
next
  case (gt ys)
  then show ?thesis using assms bytes_less_append [of b ys "[]"] by (simp add: btree_cmp_prefix_greater)
next
  case (df p x y xs zs)
  have "\<not> (length zs < length xs)"
    using assms btree_cmp_undefined [of a b] df by auto
  then show ?thesis using assms df by (auto simp add: btree_cmp_differ split: if_splits)
qed










subsection \<open>Commit\<close>

text \<open>What the cache operations leave alone.\<close>

lemma mpage_del_frame [simp]:
  "bt_file (mpage_del a bt) = bt_file bt" "bt_tail (mpage_del a bt) = bt_tail bt"
  "bt_meta (mpage_del a bt) = bt_meta bt" "bt_size (mpage_del a bt) = bt_size bt"
  "bt_mem (mpage_del a bt) = bt_mem bt" "bt_max_cache (mpage_del a bt) = bt_max_cache bt"
  "bt_txns (mpage_del a bt) = bt_txns bt" "bt_txn (mpage_del a bt) = bt_txn bt"
  "bt_errno (mpage_del a bt) = bt_errno bt" "bt_head (mpage_del a bt) = bt_head bt"
  by (simp_all add: mpage_del_def)

lemma mpage_free_frame [simp]:
  "bt_file (mpage_free a bt) = bt_file bt" "bt_tail (mpage_free a bt) = bt_tail bt"
  "bt_meta (mpage_free a bt) = bt_meta bt" "bt_size (mpage_free a bt) = bt_size bt"
  "bt_max_cache (mpage_free a bt) = bt_max_cache bt" "bt_cache_size (mpage_free a bt) = bt_cache_size bt"
  "bt_txns (mpage_free a bt) = bt_txns bt" "bt_txn (mpage_free a bt) = bt_txn bt"
  "bt_errno (mpage_free a bt) = bt_errno bt" "bt_head (mpage_free a bt) = bt_head bt"
  "bt_mem (mpage_free a bt) = (bt_mem bt)(a := None)"
  by (simp_all add: mpage_free_def)

lemma same_disk_refl [simp]: "same_disk bt bt" by (simp add: same_disk_def)
lemma same_disk_trans: "same_disk a b \<Longrightarrow> same_disk b c \<Longrightarrow> same_disk a c" by (simp add: same_disk_def)

lemma mpage_flush_loop_frame: "same_disk bt (mpage_flush_loop es bt)"
proof (induction es arbitrary: bt)
  case Nil
  then show ?case by (simp add: same_disk_def)
next
  case (Cons e es)
  from Cons [of "mpage_free (snd e) (mpage_del (snd e) bt)"]
  show ?case by (simp add: same_disk_def)
qed

lemma btree_close_frame: "same_disk bt (btree_close bt)"
proof -
  let ?bt = "bt\<lparr>bt_ref := bt_ref bt - 1\<rparr>"
  have 1: "same_disk bt ?bt" by (simp add: same_disk_def)
  have 2: "same_disk ?bt (mpage_flush ?bt)" unfolding mpage_flush_def by (rule mpage_flush_loop_frame)
  have "btree_close bt = ?bt \<or> btree_close bt = mpage_flush ?bt"
    by (simp add: btree_close_def Let_def)
  then show ?thesis using 1 same_disk_trans [OF 1 2] by metis
qed

lemma abort_loop_frame: "same_disk bt (abort_loop q bt)"
proof (induction q arbitrary: bt)
  case Nil
  then show ?case by (simp add: same_disk_def)
next
  case (Cons a q)
  from Cons [of "mpage_free a (mpage_del a bt)"]
  show ?case by (simp add: same_disk_def)
qed

lemma mpage_flush_loop_errno [simp]: "bt_errno (mpage_flush_loop es bt) = bt_errno bt"
  by (induction es arbitrary: bt) simp_all

lemma abort_loop_errno [simp]: "bt_errno (abort_loop q bt) = bt_errno bt"
  by (induction q arbitrary: bt) simp_all

lemma btree_close_errno [simp]: "bt_errno (btree_close bt) = bt_errno bt"
  by (simp add: btree_close_def Let_def mpage_flush_def)

lemma btree_txn_abort_frame:
  assumes "bt_txns bt h = Some t"
  shows "\<exists>bt'. btree_txn_abort (Some h) bt = Some bt' \<and> same_disk bt bt' \<and> bt_errno bt' = bt_errno bt"
proof -
  let ?b1 = "(if BT_TXN_RDONLY \<notin> t_flags t
                    then (abort_loop (t_dirty_queue t) bt)\<lparr>bt_txn := None\<rparr> else bt)"
  have 1: "same_disk bt ?b1" using abort_loop_frame [of bt "t_dirty_queue t"] by (simp add: same_disk_def)
  have 2: "same_disk ?b1 (btree_close ?b1)" by (rule btree_close_frame)
  have 3: "same_disk (btree_close ?b1) ((btree_close ?b1)\<lparr>bt_txns := (bt_txns (btree_close ?b1))(h := None)\<rparr>)"
    by (simp add: same_disk_def)
  have e: "bt_errno ((btree_close ?b1)\<lparr>bt_txns := (bt_txns (btree_close ?b1))(h := None)\<rparr>) = bt_errno bt"
    by (simp add: btree_close_errno abort_loop_errno)
  have "btree_txn_abort (Some h) bt = Some ((btree_close ?b1)\<lparr>bt_txns := (bt_txns (btree_close ?b1))(h := None)\<rparr>)"
    using assms by (simp add: btree_txn_abort_def Let_def)
  then show ?thesis using same_disk_trans [OF same_disk_trans [OF 1 2] 3] e by blast
qed

lemma mpage_prune_loop_frame:
  assumes "distinct q" "\<forall>a \<in> set q. bt_mem bt a \<noteq> None"
  shows "\<exists>bt'. mpage_prune_loop q bt = Some bt' \<and> same_disk bt bt' \<and> bt_txns bt' = bt_txns bt
     \<and> bt_txn bt' = bt_txn bt \<and> bt_errno bt' = bt_errno bt"
  using assms
proof (induction q arbitrary: bt)
  case Nil
  then show ?case by (simp add: same_disk_def)
next
  case (Cons a q)
  show ?case
  proof (cases "bt_cache_size bt \<le> bt_max_cache bt")
    case True
    then show ?thesis by (simp add: same_disk_def)
  next
    case False
    from Cons.prems obtain mp where mp: "bt_mem bt a = Some mp" by auto
    show ?thesis
    proof (cases "\<not> mp_dirty mp \<and> mp_ref mp \<le> 0")
      case True
      let ?bt = "mpage_free a (mpage_del a bt)"
      have "distinct q" "\<forall>b \<in> set q. bt_mem ?bt b \<noteq> None" using Cons.prems by auto
      from Cons.IH [OF this] show ?thesis using False mp True by (simp add: same_disk_def)
    next
      case nt: False
      have "distinct q" "\<forall>b \<in> set q. bt_mem bt b \<noteq> None" using Cons.prems by auto
      from Cons.IH [OF this] show ?thesis using False mp nt by (auto simp add: same_disk_def)
    qed
  qed
qed


text \<open>
  Claim C9.  Committing the write transaction of the database, not marked as failed,
  while its dirty queue is empty succeeds and writes nothing: the file (its pages and
  its size), the size on record and the meta data in memory are as before.  The pages
  on the LRU queue are allocated, each once.
\<close>

theorem commit_empty_queue_writes_nothing:
  assumes "bt_txns bt h = Some t" and "bt_txn bt = Some h"
    and "BT_TXN_RDONLY \<notin> t_flags t" and "BT_TXN_ERROR \<notin> t_flags t"
    and "t_dirty_queue t = []"
    and "distinct (bt_lru_queue bt)" and "\<forall>a \<in> set (bt_lru_queue bt). bt_mem bt a \<noteq> None"
  shows "\<exists>bt'. btree_txn_commit h bt = Some (BT_SUCCESS, bt') \<and>
           bt_file bt' = bt_file bt \<and> bt_tail bt' = bt_tail bt \<and>
           bt_meta bt' = bt_meta bt \<and> bt_size bt' = bt_size bt"
proof -
  from mpage_prune_loop_frame [OF assms(6) assms(7)] obtain b1 where
    b1: "mpage_prune bt = Some b1" "same_disk bt b1" "bt_txns b1 = bt_txns bt"
    unfolding mpage_prune_def by blast
  have "bt_txns b1 h = Some t" using b1 assms by simp
  from btree_txn_abort_frame [OF this] obtain b2 where
    b2: "btree_txn_abort (Some h) b1 = Some b2" "same_disk b1 b2" by blast
  have "btree_txn_commit h bt = Some (BT_SUCCESS, b2)"
    using assms b1 b2 by (simp add: btree_txn_commit_def)
  moreover have "same_disk bt b2" using b1 b2 by (blast intro: same_disk_trans)
  ultimately show ?thesis by (simp add: same_disk_def)
qed

lemma fresh_bt_txn_txn: "bt_txns fresh_bt_txn 1 = Some fresh_txn"
  by (simp add: fresh_bt_txn_def)

theorem commit_empty_queue_writes_nothing_witness:
  "\<exists>bt'. btree_txn_commit 1 fresh_bt_txn = Some (BT_SUCCESS, bt') \<and>
           bt_file bt' = bt_file fresh_bt_txn \<and> bt_tail bt' = bt_tail fresh_bt_txn \<and>
           bt_meta bt' = bt_meta fresh_bt_txn \<and> bt_size bt' = bt_size fresh_bt_txn"
proof -
  have h2: "bt_txn fresh_bt_txn = Some 1" by (simp add: fresh_bt_txn_def)
  have h3: "BT_TXN_RDONLY \<notin> t_flags fresh_txn" "BT_TXN_ERROR \<notin> t_flags fresh_txn"
    "t_dirty_queue fresh_txn = []" by (simp_all add: fresh_txn_def)
  have h6: "distinct (bt_lru_queue fresh_bt_txn)"
    "\<forall>a \<in> set (bt_lru_queue fresh_bt_txn). bt_mem fresh_bt_txn a \<noteq> None"
    by (simp_all add: fresh_bt_txn_def fresh_bt_def)
  show ?thesis
    by (rule commit_empty_queue_writes_nothing [OF fresh_bt_txn_txn h2 h3 h6])
qed

subsection \<open>Write operations on a read-only transaction\<close>

lemma put_rdonly:
  assumes "bt_txns bt h = Some t" "BT_TXN_RDONLY \<in> t_flags t"
  shows "btree_txn_put (Some h) key data bt = Some (BT_FAIL, set_errno EINVAL bt)"
  using assms by (simp add: btree_txn_put_def)

lemma del_rdonly:
  assumes "bt_txns bt h = Some t" "BT_TXN_RDONLY \<in> t_flags t"
  shows "btree_txn_del (Some h) key wdata bt = Some (BT_FAIL, None, set_errno EINVAL bt)"
  using assms by (simp add: btree_txn_del_def)

lemma commit_rdonly:
  assumes "bt_txns bt h = Some t" "BT_TXN_RDONLY \<in> t_flags t"
  shows "\<exists>bt'. btree_txn_commit h bt = Some (BT_FAIL, set_errno EPERM bt') \<and> same_disk bt bt'"
proof -
  from btree_txn_abort_frame [OF assms(1)] obtain bt' where
    "btree_txn_abort (Some h) bt = Some bt'" "same_disk bt bt'" by blast
  then have "btree_txn_commit h bt = Some (BT_FAIL, set_errno EPERM bt') \<and> same_disk bt bt'"
    using assms by (simp add: btree_txn_commit_def)
  then show ?thesis by blast
qed

text \<open>
  Claim C8, as stated, fails: put on a read-only transaction fails with \<open>EINVAL\<close>
  (INVALID-ARGUMENT), not with \<open>EPERM\<close> (PERM).
\<close>

theorem put_rdonly_not_eperm:
  "rc_errno (btree_txn_put (Some 1) key_a val_1 fresh_bt_ro) = Some (BT_FAIL, EINVAL) \<and> EINVAL \<noteq> EPERM"
proof -
  have "bt_txns fresh_bt_ro 1 = Some (fresh_txn\<lparr>t_flags := {BT_TXN_RDONLY}\<rparr>)"
    by (simp add: fresh_bt_ro_def)
  from put_rdonly [OF this] show ?thesis
    by (simp add: rc_errno_def set_errno_def)
qed

text \<open>
  Claim C8, amended.  On a read-only transaction put and del fail with \<open>EINVAL\<close>
  (INVALID-ARGUMENT) and leave the state as it is but for \<open>errno\<close>; commit fails with
  \<open>EPERM\<close> (PERM).
\<close>

theorem rdonly_write_ops_fail:
  assumes "bt_txns bt h = Some t" and "BT_TXN_RDONLY \<in> t_flags t"
  shows "btree_txn_put (Some h) key data bt = Some (BT_FAIL, set_errno EINVAL bt) \<and>
         btree_txn_del (Some h) key wdata bt = Some (BT_FAIL, None, set_errno EINVAL bt) \<and>
         rc_errno (btree_txn_commit h bt) = Some (BT_FAIL, EPERM)"
proof -
  from commit_rdonly [OF assms] have "rc_errno (btree_txn_commit h bt) = Some (BT_FAIL, EPERM)"
    by (auto simp: rc_errno_def set_errno_def)
  then show ?thesis using put_rdonly [OF assms] del_rdonly [OF assms] by simp
qed

theorem rdonly_write_ops_fail_witness:
  "btree_txn_put (Some 1) key_a val_1 fresh_bt_ro = Some (BT_FAIL, set_errno EINVAL fresh_bt_ro) \<and>
   btree_txn_del (Some 1) key_a False fresh_bt_ro = Some (BT_FAIL, None, set_errno EINVAL fresh_bt_ro) \<and>
   rc_errno (btree_txn_commit 1 fresh_bt_ro) = Some (BT_FAIL, EPERM)"
proof -
  have 1: "bt_txns fresh_bt_ro 1 = Some (fresh_txn\<lparr>t_flags := {BT_TXN_RDONLY}\<rparr>)"
    by (simp add: fresh_bt_ro_def)
  have 2: "BT_TXN_RDONLY \<in> t_flags (fresh_txn\<lparr>t_flags := {BT_TXN_RDONLY}\<rparr>)" by simp
  show ?thesis by (rule rdonly_write_ops_fail [OF 1 2])
qed

subsection \<open>Two puts of the same key\<close>

text \<open>
  Claim C3 on the code: after \<open>put(a, 1)\<close> on the new database the entries counter of
  the meta data is 1, after a second \<open>put(a, 1)\<close> it is 2.
\<close>

theorem put_twice_entries:
  "map_option m_entries (map_option bt_meta put_once) = Some 1 \<and>
   map_option m_entries (map_option bt_meta put_twice) = Some 2"
  unfolding put_twice_def put_once_def key_a_def val_1_def by code_simp

text \<open>
  Claim C7 on the code: the two commits write the meta pages 2 and 4; the roots they
  record are the pages 1 and 3; \<open>prev_meta\<close> of meta page 4 is 1, the root before,
  and not 2, the meta page before.
\<close>

theorem put_twice_prev_meta:
  "map_option meta_pages put_twice = Some [(2, 1, P_INVALID), (4, 3, 1)]"
  unfolding put_twice_def put_once_def key_a_def val_1_def by code_simp

subsection \<open>The end of a cursor\<close>










lemma pop_all_flags:
  assumes "cursor_pop_all st c bt = Some (c', bt')"
  shows "c_eof c' = c_eof c \<and> c_initialized c' = c_initialized c"
  using assms
  by (induction st arbitrary: c bt)
     (auto simp add: cursor_pop_page_def split: list.splits Option.bind_splits)








subsection \<open>Lookup\<close>

text \<open>
  Claim C1.  On the new database \<open>put\<close> of the key \<open>b\<close> with empty data succeeds and
  commits; the file then holds one leaf page with the one key \<open>b\<close>.  The key \<open>ab\<close> was
  never inserted, so the claim asks \<open>get\<close> to fail with \<open>ENOENT\<close>.  \<open>get\<close> compares \<open>ab\<close>
  with the stored key \<open>b\<close>: \<open>memncmp\<close> finds the first byte different and then calls
  \<open>memcmp\<close> for two bytes of the stored key of one byte, which is the last byte of its
  page.  \<open>get\<close> has no defined result.
\<close>

theorem get_absent_key_reads_past_stored_key:
  "map_option fst put_b = Some BT_SUCCESS \<and>
   map_option leaf_keys (after put_b) = Some [[[98]]] \<and>
   get_ab = None"
  by code_simp

subsection \<open>Inline data and overflow pages\<close>











end
